theory Spec2Isabelle
  imports Main
begin

section \<open>Text\<close>

text \<open>
  Python's \<open>str\<close> is modelled by \<^typ>\<open>string\<close>. A character outside ASCII stands
  in the list as the bytes of its UTF-8 encoding. The character classes of the model
  (white space, decimal digits, upper-case letters) are the ASCII ones: Python's
  \<open>str.strip\<close>, \<open>str.lower\<close> and the regular-expression classes \<open>\s\<close> and \<open>\d\<close>
  also know some characters beyond ASCII, which the model treats as ordinary characters.
\<close>

definition is_space :: "char \<Rightarrow> bool" where
  \<comment> \<open>\<open>str.isspace\<close> and \<open>\s\<close> on ASCII: tab, LF, VT, FF, CR, the separators 0x1C-0x1F, space\<close>
  "is_space c = (c \<in> set [CHR 0x09, CHR 0x0A, CHR 0x0B, CHR 0x0C, CHR 0x0D,
                           CHR 0x1C, CHR 0x1D, CHR 0x1E, CHR 0x1F, CHR 0x20])"

definition is_digit :: "char \<Rightarrow> bool" where
  \<comment> \<open>\<open>\d\<close> on ASCII\<close>
  "is_digit c = (c \<in> set ''0123456789'')"

definition lower_char :: "char \<Rightarrow> char" where
  "lower_char c =
     (case map_of (zip ''ABCDEFGHIJKLMNOPQRSTUVWXYZ'' ''abcdefghijklmnopqrstuvwxyz'') c of
        Some d \<Rightarrow> d
      | None \<Rightarrow> c)"

definition lower :: "string \<Rightarrow> string" where
  \<comment> \<open>\<open>str.lower\<close>\<close>
  "lower s = map lower_char s"

definition strip :: "string \<Rightarrow> string" where
  \<comment> \<open>\<open>str.strip()\<close>: white space removed at both ends\<close>
  "strip s = rev (dropWhile is_space (rev (dropWhile is_space s)))"

definition startswith :: "string \<Rightarrow> string \<Rightarrow> bool" where
  \<comment> \<open>\<open>s.startswith(p)\<close>\<close>
  "startswith s p = (take (length p) s = p)"

fun contains :: "string \<Rightarrow> string \<Rightarrow> bool" where
  \<comment> \<open>\<open>p in s\<close> for two strings: \<open>p\<close> occurs in \<open>s\<close> as a contiguous run\<close>
  "contains [] p = (p = [])"
| "contains (c # cs) p = (startswith (c # cs) p \<or> contains cs p)"

section \<open>Exceptions\<close>

datatype exc =
    JSONDecodeError
  | AttributeError
  | TypeError
  | KeyError
  | IndexError
  | ValueError
  | OverflowError
  | NameError
  | ValidationError
  | RequestValidationError
  | ConnectionError string
  | APIError string
  | HTTPException nat string

section \<open>JSON values\<close>

text \<open>
  The Python objects that \<open>json.loads\<close> returns. The type \<open>'f\<close> stands for Python's
  \<open>float\<close>: floating-point numbers are not interpreted by this development, every
  operation on them is a field of the record \<open>runtime\<close> below.
  A \<open>dict\<close> is an association list in insertion order with distinct keys.
\<close>

datatype 'f json =
    JNull
  | JBool bool
  | JInt int
  | JFloat 'f
  | JStr string
  | JArr "'f json list"
  | JObj "(string \<times> 'f json) list"

fun dict_set :: "(string \<times> 'v) list \<Rightarrow> string \<Rightarrow> 'v \<Rightarrow> (string \<times> 'v) list" where
  \<comment> \<open>\<open>d[k] = v\<close>: a key already there keeps its place\<close>
  "dict_set [] k v = [(k, v)]"
| "dict_set ((k', v') # d) k v = (if k' = k then (k, v) # d else (k', v') # dict_set d k v)"

definition dict_of_pairs :: "(string \<times> 'v) list \<Rightarrow> (string \<times> 'v) list" where
  \<comment> \<open>\<open>dict(pairs)\<close>: of two pairs with one key the later value stays\<close>
  "dict_of_pairs ps = foldl (\<lambda>d (k, v). dict_set d k v) [] ps"

datatype 'f number = N_int int | N_float 'f

record 'f runtime =
  float_of_literal :: "string \<Rightarrow> 'f"
    \<comment> \<open>\<open>float(s)\<close> for the text of a number: a JSON number with a fraction or an exponent,
        \<open>nan\<close>, \<open>inf\<close>, \<open>-inf\<close>, a run of digits, a literal of the source such as \<open>6.0\<close>\<close>
  float_of_int :: "int \<Rightarrow> 'f option"
    \<comment> \<open>\<open>float(n)\<close> and the conversion of an \<open>int\<close> operand in mixed arithmetic:
        \<open>None\<close> where Python raises \<open>OverflowError\<close>\<close>
  float_of_str :: "string \<Rightarrow> 'f option"
    \<comment> \<open>\<open>float(s)\<close> for any string: \<open>None\<close> where Python raises \<open>ValueError\<close>\<close>
  float_add :: "'f \<Rightarrow> 'f \<Rightarrow> 'f"
  float_is_zero :: "'f \<Rightarrow> bool"
    \<comment> \<open>\<open>x == 0\<close>\<close>
  float_is_positive :: "'f \<Rightarrow> bool"
    \<comment> \<open>\<open>x > 0\<close>\<close>
  percentage :: "'f number \<Rightarrow> 'f number \<Rightarrow> exc + 'f"
    \<comment> \<open>\<open>round(a / t * 100, 1)\<close> for a divisor \<open>t > 0\<close>\<close>
  repr_float :: "'f \<Rightarrow> string"
  repr_str :: "string \<Rightarrow> string"
    \<comment> \<open>\<open>repr(s)\<close> of a string: the quoted, escaped form\<close>
  builtin_message :: "exc \<Rightarrow> string"
    \<comment> \<open>\<open>str(e)\<close> for an exception that the interpreter or a library raises\<close>
  json_dumps :: "'f json \<Rightarrow> string"
    \<comment> \<open>\<open>json.dumps\<close>\<close>
  b64encode :: "string \<Rightarrow> string"
    \<comment> \<open>\<open>base64.b64encode(content).decode("utf-8")\<close>\<close>

section \<open>\<open>json.loads\<close>\<close>

definition is_json_ws :: "char \<Rightarrow> bool" where
  "is_json_ws c = (c \<in> set [CHR 0x20, CHR 0x09, CHR 0x0A, CHR 0x0D])"

definition skip_ws :: "string \<Rightarrow> string" where
  "skip_ws s = dropWhile is_json_ws s"

definition hex_val :: "char \<Rightarrow> nat option" where
  "hex_val c = map_of (zip ''0123456789abcdefABCDEF''
     [0, 1, 2, 3, 4, 5, 6, 7, 8, 9, 10, 11, 12, 13, 14, 15, 10, 11, 12, 13, 14, 15]) c"

definition hex4 :: "string \<Rightarrow> nat option" where
  \<comment> \<open>the value of the four hexadecimal digits that follow \<open>\u\<close>\<close>
  "hex4 s =
     (case map hex_val (take 4 s) of
        [Some a, Some b, Some c, Some d] \<Rightarrow> Some (((a * 16 + b) * 16 + c) * 16 + d)
      | _ \<Rightarrow> None)"

definition utf8 :: "nat \<Rightarrow> string" where
  \<comment> \<open>the UTF-8 bytes of a code point\<close>
  "utf8 n =
     (if n < 0x80 then [char_of n]
      else if n < 0x800 then [char_of (0xC0 + n div 64), char_of (0x80 + n mod 64)]
      else if n < 0x10000 then
        [char_of (0xE0 + n div 4096), char_of (0x80 + n div 64 mod 64), char_of (0x80 + n mod 64)]
      else
        [char_of (0xF0 + n div 262144), char_of (0x80 + n div 4096 mod 64),
         char_of (0x80 + n div 64 mod 64), char_of (0x80 + n mod 64)])"

definition simple_escape :: "char \<Rightarrow> char option" where
  "simple_escape c = map_of
     [(CHR 0x22, CHR 0x22), (CHR 0x5C, CHR 0x5C), (CHR ''/'', CHR ''/''),
      (CHR ''b'', CHR 0x08), (CHR ''f'', CHR 0x0C), (CHR ''n'', CHR 0x0A),
      (CHR ''r'', CHR 0x0D), (CHR ''t'', CHR 0x09)] c"

definition is_control :: "char \<Rightarrow> bool" where
  "is_control c = ((of_char c :: nat) < 0x20)"

definition unicode_escape :: "string \<Rightarrow> (nat \<times> string) option" where
  \<comment> \<open>the code point of \<open>\uXXXX\<close> (the argument starts after \<open>\u\<close>), a surrogate pair
      \<open>\uD8xx\uDCxx\<close> read as one code point, and the rest of the text\<close>
  "unicode_escape s =
     (case hex4 s of
        None \<Rightarrow> None
      | Some hi \<Rightarrow>
          (if length s < 4 then None
           else if 0xD800 \<le> hi \<and> hi \<le> 0xDBFF \<and> startswith (drop 4 s) [CHR 0x5C, CHR ''u''] then
             (case hex4 (drop 6 s) of
                Some lo \<Rightarrow>
                  (if length s \<ge> 10 \<and> 0xDC00 \<le> lo \<and> lo \<le> 0xDFFF
                   then Some (0x10000 + (hi - 0xD800) * 1024 + (lo - 0xDC00), drop 10 s)
                   else Some (hi, drop 4 s))
              | None \<Rightarrow> Some (hi, drop 4 s))
           else Some (hi, drop 4 s)))"

function scan_string :: "string \<Rightarrow> (string \<times> string) option" where
  \<comment> \<open>the body of a string and the text after its closing quote; the argument starts
      after the opening quote\<close>
  "scan_string [] = None"
| "scan_string (c # cs) =
     (if c = CHR 0x22 then Some ([], cs)
      else if c = CHR 0x5C then
        (case cs of
           [] \<Rightarrow> None
         | e # es \<Rightarrow>
             (if e = CHR ''u'' then
                (case unicode_escape es of
                   None \<Rightarrow> None
                 | Some (n, rest) \<Rightarrow>
                     (if length rest \<le> length es
                      then map_option (\<lambda>(body, r). (utf8 n @ body, r)) (scan_string rest)
                      else None))
              else
                (case simple_escape e of
                   None \<Rightarrow> None
                 | Some d \<Rightarrow> map_option (\<lambda>(body, r). (d # body, r)) (scan_string es))))
      else if is_control c then None
      else map_option (\<lambda>(body, r). (c # body, r)) (scan_string cs))"
  by pat_completeness auto
termination
  by (relation "measure length") auto

definition int_of_digits :: "string \<Rightarrow> int" where
  "int_of_digits ds = foldl (\<lambda>n c. 10 * n + int (the (hex_val c))) 0 ds"

definition match_number :: "'f runtime \<Rightarrow> string \<Rightarrow> ('f json \<times> string) option" where
  \<comment> \<open>the number at the start of the text:
      \<open>-?(0|[1-9]\d*)(\.\d+)?([eE][-+]?\d+)?\<close>, an \<open>int\<close> without fraction and exponent\<close>
  "match_number rt s =
     (let sign = (if startswith s ''-'' then ''-'' else '''');
          s1 = drop (length sign) s;
          ip = (if startswith s1 ''0'' then ''0'' else takeWhile is_digit s1);
          s2 = drop (length ip) s1;
          fd = (if startswith s2 ''.'' then takeWhile is_digit (drop 1 s2) else '''');
          frac = (if fd = [] then '''' else CHR ''.'' # fd);
          s3 = drop (length frac) s2;
          es = (if startswith s3 ''e'' \<or> startswith s3 ''E'' then take 1 s3 else '''');
          s4 = drop (length es) s3;
          sg = (if startswith s4 ''+'' \<or> startswith s4 ''-'' then take 1 s4 else '''');
          ed = takeWhile is_digit (drop (length sg) s4);
          ex = (if es = [] \<or> ed = [] then '''' else es @ sg @ ed);
          s5 = drop (length ex) s3
      in if ip = [] then None
         else if frac = [] \<and> ex = [] then
           Some (JInt (if sign = [] then int_of_digits ip else - int_of_digits ip), s5)
         else Some (JFloat (float_of_literal rt (sign @ ip @ frac @ ex)), s5))"

datatype parse_error = Decode_error | Out_of_fuel

fun parse_value :: "'f runtime \<Rightarrow> nat \<Rightarrow> string \<Rightarrow> parse_error + ('f json \<times> string)"
  and parse_array :: "'f runtime \<Rightarrow> nat \<Rightarrow> string \<Rightarrow> parse_error + ('f json list \<times> string)"
  and parse_object :: "'f runtime \<Rightarrow> nat \<Rightarrow> string \<Rightarrow> parse_error + ((string \<times> 'f json) list \<times> string)"
where
  "parse_value rt 0 s = Inl Out_of_fuel"
| "parse_value rt (Suc n) s =
     (if startswith s [CHR 0x22] then
        (case scan_string (drop 1 s) of
           None \<Rightarrow> Inl Decode_error
         | Some (body, rest) \<Rightarrow> Inr (JStr body, rest))
      else if startswith s ''{'' then
        (if startswith (skip_ws (drop 1 s)) ''}'' then Inr (JObj [], drop 1 (skip_ws (drop 1 s)))
         else
           (case parse_object rt n (skip_ws (drop 1 s)) of
              Inl e \<Rightarrow> Inl e
            | Inr (ps, rest) \<Rightarrow> Inr (JObj (dict_of_pairs ps), rest)))
      else if startswith s ''['' then
        (if startswith (skip_ws (drop 1 s)) '']'' then Inr (JArr [], drop 1 (skip_ws (drop 1 s)))
         else
           (case parse_array rt n (skip_ws (drop 1 s)) of
              Inl e \<Rightarrow> Inl e
            | Inr (vs, rest) \<Rightarrow> Inr (JArr vs, rest)))
      else if startswith s ''null'' then Inr (JNull, drop 4 s)
      else if startswith s ''true'' then Inr (JBool True, drop 4 s)
      else if startswith s ''false'' then Inr (JBool False, drop 5 s)
      else if startswith s ''NaN'' then Inr (JFloat (float_of_literal rt ''nan''), drop 3 s)
      else if startswith s ''Infinity'' then Inr (JFloat (float_of_literal rt ''inf''), drop 8 s)
      else if startswith s ''-Infinity'' then Inr (JFloat (float_of_literal rt ''-inf''), drop 9 s)
      else
        (case match_number rt s of
           None \<Rightarrow> Inl Decode_error
         | Some r \<Rightarrow> Inr r))"
| "parse_array rt 0 s = Inl Out_of_fuel"
| "parse_array rt (Suc n) s =
     (case parse_value rt n s of
        Inl e \<Rightarrow> Inl e
      | Inr (v, rest) \<Rightarrow>
          (if startswith (skip_ws rest) '']'' then Inr ([v], drop 1 (skip_ws rest))
           else if startswith (skip_ws rest) '','' then
             (case parse_array rt n (skip_ws (drop 1 (skip_ws rest))) of
                Inl e \<Rightarrow> Inl e
              | Inr (vs, rest') \<Rightarrow> Inr (v # vs, rest'))
           else Inl Decode_error))"
| "parse_object rt 0 s = Inl Out_of_fuel"
| "parse_object rt (Suc n) s =
     (if \<not> startswith s [CHR 0x22] then Inl Decode_error
      else
        (case scan_string (drop 1 s) of
           None \<Rightarrow> Inl Decode_error
         | Some (key, rest) \<Rightarrow>
             (if \<not> startswith (skip_ws rest) '':'' then Inl Decode_error
              else
                (case parse_value rt n (skip_ws (drop 1 (skip_ws rest))) of
                   Inl e \<Rightarrow> Inl e
                 | Inr (v, rest') \<Rightarrow>
                     (if startswith (skip_ws rest') ''}'' then
                        Inr ([(key, v)], drop 1 (skip_ws rest'))
                      else if startswith (skip_ws rest') '','' then
                        (case parse_object rt n (skip_ws (drop 1 (skip_ws rest'))) of
                           Inl e \<Rightarrow> Inl e
                         | Inr (ps, rest'') \<Rightarrow> Inr ((key, v) # ps, rest''))
                      else Inl Decode_error)))))"

definition json_loads :: "'f runtime \<Rightarrow> string \<Rightarrow> parse_error + 'f json" where
  \<comment> \<open>\<open>json.loads(s)\<close> for a \<open>str\<close>: \<open>Inl Decode_error\<close> is \<open>json.JSONDecodeError\<close>\<close>
  "json_loads rt s =
     (if startswith s [CHR 0xEF, CHR 0xBB, CHR 0xBF] then Inl Decode_error
      else
        (case parse_value rt (Suc (length s)) (skip_ws s) of
           Inl e \<Rightarrow> Inl e
         | Inr (v, rest) \<Rightarrow> if skip_ws rest = [] then Inr v else Inl Decode_error))"

section \<open>Python operations on JSON values\<close>

definition dict_get :: "(string \<times> 'v) list \<Rightarrow> string \<Rightarrow> 'v option" where
  "dict_get d k = map_of d k"

definition py_get :: "'f json \<Rightarrow> string \<Rightarrow> 'f json \<Rightarrow> exc + 'f json" where
  \<comment> \<open>\<open>v.get(k, default)\<close>: only a \<open>dict\<close> has the method\<close>
  "py_get v k dflt =
     (case v of
        JObj d \<Rightarrow> (case dict_get d k of Some x \<Rightarrow> Inr x | None \<Rightarrow> Inr dflt)
      | _ \<Rightarrow> Inl AttributeError)"

definition py_contains :: "'f json \<Rightarrow> string \<Rightarrow> exc + bool" where
  \<comment> \<open>\<open>k in v\<close> for a string \<open>k\<close>: a key of a \<open>dict\<close>, an element of a \<open>list\<close>,
      a part of a \<open>str\<close>; nothing else can be searched\<close>
  "py_contains v k =
     (case v of
        JObj d \<Rightarrow> Inr (dict_get d k \<noteq> None)
      | JArr xs \<Rightarrow> Inr (list_ex (\<lambda>x. case x of JStr s \<Rightarrow> s = k | _ \<Rightarrow> False) xs)
      | JStr s \<Rightarrow> Inr (contains s k)
      | _ \<Rightarrow> Inl TypeError)"

definition py_item :: "'f json \<Rightarrow> string \<Rightarrow> exc + 'f json" where
  \<comment> \<open>\<open>v[k]\<close> for a string \<open>k\<close>\<close>
  "py_item v k =
     (case v of
        JObj d \<Rightarrow> (case dict_get d k of Some x \<Rightarrow> Inr x | None \<Rightarrow> Inl KeyError)
      | _ \<Rightarrow> Inl TypeError)"

section \<open>Regular-expression searches of the source\<close>

fun search :: "(string \<Rightarrow> 'a option) \<Rightarrow> string \<Rightarrow> 'a option" where
  \<comment> \<open>\<open>re.search\<close>: the match at the leftmost position that has one\<close>
  "search m [] = m []"
| "search m (c # cs) = (case m (c # cs) of Some r \<Rightarrow> Some r | None \<Rightarrow> search m cs)"

definition search_json_object :: "string \<Rightarrow> string option" where
  \<comment> \<open>\<open>re.search(r'({[\s\S]*})', text)\<close>: from the first \<open>{\<close> to the last \<open>}\<close> after it\<close>
  "search_json_object text =
     (let from_brace = dropWhile (\<lambda>c. c \<noteq> CHR ''{'') text
      in if CHR ''}'' \<in> set from_brace
         then Some (rev (dropWhile (\<lambda>c. c \<noteq> CHR ''}'') (rev from_brace)))
         else None)"

definition match_course :: "string \<Rightarrow> string option" where
  \<comment> \<open>\<open>"course_of_the_frq"\s*:\s*"([^"]+)"\<close> at the start of the text: group 1\<close>
  "match_course s =
     (if \<not> startswith s (CHR 0x22 # ''course_of_the_frq'' @ [CHR 0x22]) then None
      else
        (let r1 = dropWhile is_space (drop 19 s) in
         if \<not> startswith r1 '':'' then None
         else
           (let r2 = dropWhile is_space (drop 1 r1) in
            if \<not> startswith r2 [CHR 0x22] then None
            else
              (let name = takeWhile (\<lambda>c. c \<noteq> CHR 0x22) (drop 1 r2);
                   rest = dropWhile (\<lambda>c. c \<noteq> CHR 0x22) (drop 1 r2)
               in if name = [] \<or> rest = [] then None else Some name))))"

definition match_score :: "string \<Rightarrow> string \<Rightarrow> (string \<times> string) option" where
  \<comment> \<open>\<open>LABEL(\d+)/(\d+)\<close> at the start of the text: groups 1 and 2\<close>
  "match_score label s =
     (if \<not> startswith s label then None
      else
        (let earned = takeWhile is_digit (drop (length label) s);
             r = dropWhile is_digit (drop (length label) s);
             possible = takeWhile is_digit (drop 1 r)
         in if earned = [] \<or> \<not> startswith r ''/'' \<or> possible = [] then None
            else Some (earned, possible)))"

definition match_score_estimate :: "string \<Rightarrow> (string \<times> string) option" where
  \<comment> \<open>\<open><score_estimate>[\s\S]*?Total Score: (\d+)/(\d+)\<close> at the start of the text\<close>
  "match_score_estimate s =
     (if startswith s ''<score_estimate>''
      then search (match_score ''Total Score: '') (drop 16 s)
      else None)"

definition match_digits :: "string \<Rightarrow> string \<Rightarrow> string option" where
  \<comment> \<open>\<open>LABEL(\d+)\<close> at the start of the text: group 1\<close>
  "match_digits label s =
     (if startswith s label \<and> takeWhile is_digit (drop (length label) s) \<noteq> []
      then Some (takeWhile is_digit (drop (length label) s))
      else None)"

fun lazy_until :: "string list \<Rightarrow> string \<Rightarrow> string" where
  \<comment> \<open>\<open>.*?(?=STOP1|STOP2|$)\<close> with \<open>re.DOTALL\<close>: the shortest run after which a stop
      text stands or the text ends; \<open>$\<close> also holds before a last line feed\<close>
  "lazy_until stops [] = []"
| "lazy_until stops (c # cs) =
     (if list_ex (startswith (c # cs)) stops \<or> (c = CHR 0x0A \<and> cs = []) then []
      else c # lazy_until stops cs)"

definition match_section :: "string \<Rightarrow> string list \<Rightarrow> string \<Rightarrow> string option" where
  \<comment> \<open>\<open>HEADING.*?(?=STOP|$)\<close> at the start of the text: group 0\<close>
  "match_section heading stops s =
     (if startswith s heading
      then Some (heading @ lazy_until stops (drop (length heading) s))
      else None)"

section \<open>Classification of the course\<close>

definition extract_course :: "'f runtime \<Rightarrow> string \<Rightarrow> string \<Rightarrow> exc + 'f json" where
  \<comment> \<open>\<open>classify_frq_course\<close> from its \<open>try\<close> on: \<open>response_text\<close> is the text the
      classification call returned. \<open>except json.JSONDecodeError\<close> catches the failure of
      \<open>json.loads\<close> only: an \<open>AttributeError\<close> of \<open>.get\<close> leaves the function.\<close>
  "extract_course rt response_text course_title =
     (case json_loads rt response_text of
        Inr json_response \<Rightarrow> py_get json_response ''course_of_the_frq'' (JStr [])
      | Inl _ \<Rightarrow>
          (case (case search_json_object response_text of
                   None \<Rightarrow> None
                 | Some json_str \<Rightarrow>
                     (case json_loads rt json_str of
                        Inr json_obj \<Rightarrow> Some (py_get json_obj ''course_of_the_frq'' (JStr []))
                      | Inl _ \<Rightarrow> None)) of
             Some r \<Rightarrow> r
           | None \<Rightarrow>
               (case search match_course response_text of
                  Some name \<Rightarrow> Inr (JStr name)
                | None \<Rightarrow> Inr (JStr course_title))))"

definition normalize_course_name :: "string \<Rightarrow> string" where
  "normalize_course_name course_name =
     (let normalized = lower (strip course_name)
      in if startswith normalized ''ap '' then drop 3 normalized else normalized)"

datatype strategy = Two_stage | Language | Literature | General

definition select_strategy :: "string \<Rightarrow> strategy" where
  \<comment> \<open>the \<open>if\<close>/\<open>elif\<close> chain of \<open>grade_frq\<close> on \<open>normalized_course\<close>\<close>
  "select_strategy normalized_course =
     (if normalized_course = ''environmental science'' then Two_stage
      else if normalized_course = ''language'' then Language
      else if normalized_course = ''literature'' then Literature
      else General)"

section \<open>Arithmetic and printing of Python values\<close>

definition and_then :: "'e + 'a \<Rightarrow> ('a \<Rightarrow> 'e + 'b) \<Rightarrow> 'e + 'b" where
  \<comment> \<open>one statement after another: an exception of the first leaves the block\<close>
  "and_then r f = (case r of Inl e \<Rightarrow> Inl e | Inr x \<Rightarrow> f x)"

definition as_number :: "'f json \<Rightarrow> 'f number option" where
  \<comment> \<open>\<open>bool\<close> is a subclass of \<open>int\<close>: \<open>True\<close> counts 1 and \<open>False\<close> counts 0\<close>
  "as_number v =
     (case v of
        JInt n \<Rightarrow> Some (N_int n)
      | JBool b \<Rightarrow> Some (N_int (if b then 1 else 0))
      | JFloat x \<Rightarrow> Some (N_float x)
      | _ \<Rightarrow> None)"

definition to_float :: "'f runtime \<Rightarrow> 'f number \<Rightarrow> exc + 'f" where
  "to_float rt n =
     (case n of
        N_float x \<Rightarrow> Inr x
      | N_int i \<Rightarrow> (case float_of_int rt i of Some x \<Rightarrow> Inr x | None \<Rightarrow> Inl OverflowError))"

definition py_add :: "'f runtime \<Rightarrow> 'f json \<Rightarrow> 'f json \<Rightarrow> exc + 'f json" where
  \<comment> \<open>\<open>a + b\<close>\<close>
  "py_add rt a b =
     (case (as_number a, as_number b) of
        (Some (N_int m), Some (N_int n)) \<Rightarrow> Inr (JInt (m + n))
      | (Some x, Some y) \<Rightarrow>
          and_then (to_float rt x) (\<lambda>fx.
          and_then (to_float rt y) (\<lambda>fy. Inr (JFloat (float_add rt fx fy))))
      | _ \<Rightarrow>
          (case (a, b) of
             (JStr s, JStr t) \<Rightarrow> Inr (JStr (s @ t))
           | (JArr xs, JArr ys) \<Rightarrow> Inr (JArr (xs @ ys))
           | _ \<Rightarrow> Inl TypeError))"

definition py_float :: "'f runtime \<Rightarrow> 'f json \<Rightarrow> exc + 'f" where
  \<comment> \<open>\<open>float(v)\<close>\<close>
  "py_float rt v =
     (case as_number v of
        Some n \<Rightarrow> to_float rt n
      | None \<Rightarrow>
          (case v of
             JStr s \<Rightarrow> (case float_of_str rt s of Some x \<Rightarrow> Inr x | None \<Rightarrow> Inl ValueError)
           | _ \<Rightarrow> Inl TypeError))"

definition py_eq_zero :: "'f runtime \<Rightarrow> 'f json \<Rightarrow> bool" where
  \<comment> \<open>\<open>v == 0\<close>\<close>
  "py_eq_zero rt v =
     (case as_number v of
        Some (N_int n) \<Rightarrow> n = 0
      | Some (N_float x) \<Rightarrow> float_is_zero rt x
      | None \<Rightarrow> False)"

definition py_gt_zero :: "'f runtime \<Rightarrow> 'f json \<Rightarrow> exc + bool" where
  \<comment> \<open>\<open>v > 0\<close>: only a number is ordered against \<open>0\<close>\<close>
  "py_gt_zero rt v =
     (case as_number v of
        Some (N_int n) \<Rightarrow> Inr (0 < n)
      | Some (N_float x) \<Rightarrow> Inr (float_is_positive rt x)
      | None \<Rightarrow> Inl TypeError)"

definition py_truthy :: "'f runtime \<Rightarrow> 'f json \<Rightarrow> bool" where
  \<comment> \<open>the truth value of \<open>v\<close>: \<open>None\<close>, zero and the empty string, list and dict are false\<close>
  "py_truthy rt v =
     (case v of
        JNull \<Rightarrow> False
      | JStr s \<Rightarrow> s \<noteq> []
      | JArr xs \<Rightarrow> xs \<noteq> []
      | JObj d \<Rightarrow> d \<noteq> []
      | _ \<Rightarrow> \<not> py_eq_zero rt v)"

definition digit_char :: "nat \<Rightarrow> char" where
  "digit_char n = ''0123456789'' ! n"

function str_of_nat :: "nat \<Rightarrow> string" where
  "str_of_nat n = (if n < 10 then [digit_char n] else str_of_nat (n div 10) @ [digit_char (n mod 10)])"
  by pat_completeness auto
termination
  by (relation "measure id") auto

definition str_of_int :: "int \<Rightarrow> string" where
  \<comment> \<open>\<open>str(n)\<close> of an \<open>int\<close>\<close>
  "str_of_int i = (if i < 0 then CHR ''-'' # str_of_nat (nat (- i)) else str_of_nat (nat i))"

definition str_exc :: "'f runtime \<Rightarrow> exc \<Rightarrow> string" where
  \<comment> \<open>\<open>str(e)\<close>. Starlette's \<open>HTTPException\<close> prints as \<open>status_code: detail\<close>; the
      failures of the services carry their message\<close>
  "str_exc rt e =
     (case e of
        HTTPException status_code detail \<Rightarrow> str_of_nat status_code @ '': '' @ detail
      | ConnectionError msg \<Rightarrow> msg
      | APIError msg \<Rightarrow> msg
      | _ \<Rightarrow> builtin_message rt e)"

definition join :: "string \<Rightarrow> string list \<Rightarrow> string" where
  \<comment> \<open>\<open>sep.join(parts)\<close>\<close>
  "join sep parts = (case parts of [] \<Rightarrow> [] | p # ps \<Rightarrow> p @ concat (map (\<lambda>q. sep @ q) ps))"

fun py_repr :: "'f runtime \<Rightarrow> 'f json \<Rightarrow> string" where
  \<comment> \<open>\<open>repr(v)\<close>\<close>
  "py_repr rt JNull = ''None''"
| "py_repr rt (JBool b) = (if b then ''True'' else ''False'')"
| "py_repr rt (JInt n) = str_of_int n"
| "py_repr rt (JFloat x) = repr_float rt x"
| "py_repr rt (JStr s) = repr_str rt s"
| "py_repr rt (JArr xs) = ''['' @ join '', '' (map (py_repr rt) xs) @ '']''"
| "py_repr rt (JObj d) =
     ''{'' @ join '', '' (map (\<lambda>kv. repr_str rt (fst kv) @ '': '' @ py_repr rt (snd kv)) d) @ ''}''"

definition py_str :: "'f runtime \<Rightarrow> 'f json \<Rightarrow> string" where
  \<comment> \<open>\<open>str(v)\<close>, which a format string puts in place of \<open>{v}\<close>\<close>
  "py_str rt v = (case v of JStr s \<Rightarrow> s | _ \<Rightarrow> py_repr rt v)"

section \<open>The fixed text of the prompts and of the reports\<close>

text \<open>
  Every format string of the source is cut at its holes; the pieces between the holes are
  the constants of this section, numbered in the order in which they stand in the string.
\<close>

subsection \<open>\<open>create_classification_prompt\<close>\<close>

definition classification_prompt_1 :: string where
  "classification_prompt_1 = concat
     [''####\<newline>'',
      ''You are an expert classifier for AP (Advanced Placement) Free Response Questions (FRQs). Your task is to determine the specific AP course that this FRQ belongs to based on the provided course title and the FRQ question content.\<newline>'',
      ''\<newline>'',
      ''The provided course title is:\<newline>'',
      ''<course_title>\<newline>'']"

definition classification_prompt_2 :: string where
  "classification_prompt_2 = concat
     [''\<newline>'',
      ''</course_title>\<newline>'',
      ''\<newline>'',
      ''The FRQ question is:\<newline>'',
      ''<question>\<newline>'']"

definition classification_prompt_3 :: string where
  "classification_prompt_3 = concat
     [''\<newline>'',
      ''</question>\<newline>'',
      ''\<newline>'',
      ''Instructions:\<newline>'',
      ''1. First, examine the provided course title. If it clearly matches one of the acceptable AP course names listed below, use that as your classification.\<newline>'',
      ''2. If the course title is unclear, vague, or missing, analyze the FRQ question content to determine which AP course it most likely belongs to.\<newline>'',
      ''3. Consider the vocabulary, concepts, task verbs, and subject matter in the FRQ question.\<newline>'',
      ''4. Output your classification in the specified JSON format.\<newline>'',
      ''\<newline>'',
      ''Acceptable AP course names:\<newline>'',
      ''- AP United States History\<newline>'',
      ''- AP World History\<newline>'',
      ''- AP Human Geography\<newline>'',
      ''- AP United States Government\<newline>'',
      ''- AP Microeconomics\<newline>'',
      ''- AP Environmental Science\<newline>'',
      ''- AP Biology\<newline>'',
      ''- AP Chemistry\<newline>'',
      ''- AP Physics\<newline>'',
      ''- AP Literature\<newline>'',
      ''- AP Language\<newline>'',
      ''\<newline>'',
      ''Your response must be in the following JSON format and nothing else:\<newline>'',
      ''{\<newline>'',
      ''  \"course_of_the_frq\": \"[The exact AP course name from the list above]\"\<newline>'',
      ''}\<newline>'']"

subsection \<open>\<open>create_claude_prompt\<close>\<close>

definition claude_prompt_1 :: string where
  "claude_prompt_1 = concat
     [''####\<newline>'',
      ''You are an expert evaluator for AP Environmental Science Free Response Questions (FRQs). Your task is to evaluate a student's response to an AP Environmental Science FRQ based on a question-specific rubric. You must be very strict in your scoring, awarding points only when the student's response closely matches the rubric criteria.\<newline>'',
      ''Here is the AP Environmental Science FRQ question:\<newline>'',
      ''<question>\<newline>'']"

definition claude_prompt_2 :: string where
  "claude_prompt_2 = concat
     [''\<newline>'',
      ''</question>\<newline>'',
      ''Associated image or diagram (if provided):\<newline>'',
      ''<image>\<newline>'']"

definition claude_prompt_3 :: string where
  "claude_prompt_3 = concat
     [''\<newline>'',
      ''</image>\<newline>'',
      ''Here is the question-specific scoring rubric:\<newline>'',
      ''<rubric>\<newline>'']"

definition claude_prompt_4 :: string where
  "claude_prompt_4 = concat
     [''\<newline>'',
      ''</rubric>\<newline>'',
      ''Here is the student's response:\<newline>'',
      ''<response>\<newline>'']"

definition claude_prompt_5 :: string where
  "claude_prompt_5 = concat
     [''\<newline>'',
      ''</response>\<newline>'',
      ''Instructions:\<newline>'',
      ''1. Carefully read the question, rubric, and student response.\<newline>'',
      ''2. Conduct a detailed analysis of the response. Wrap your detailed analysis inside <response_breakdown> tags. In your analysis:\<newline>'',
      ''a. Identify and list all task verbs from the question, numbering them.\<newline>'',
      ''b. Break down the rubric into individual criteria.\<newline>'',
      ''c. For each rubric criterion:\<newline>'',
      ''- Quote the exact wording from the rubric.\<newline>'',
      ''- Paraphrase the criterion in simpler terms.\<newline>'',
      ''- Consider and list alternative phrasings or synonyms that could be accepted.\<newline>'',
      ''- Quote relevant parts of the student's response.\<newline>'',
      ''- Analyze how well the student's response meets the criterion.\<newline>'',
      ''- Explicitly state whether the criterion is met or not met, and why.\<newline>'',
      ''-No partial credit. Only the first response is considered if multiple answers are given.\<newline>'',
      ''- Provide a preliminary point estimate for the criterion.\<newline>'',
      ''- Note points earned or missed.\<newline>'',
      ''d. Note strengths and weaknesses of the response.\<newline>'',
      ''e. Perform any necessary calculations or data interpretations.\<newline>'',
      ''3. After your analysis, provide your evaluation using the following structure:\<newline>'',
      ''<evaluation>\<newline>'',
      ''<task_verb_analysis>\<newline>'',
      ''[Explain how well the response aligns with each identified task verb.]\<newline>'',
      ''</task_verb_analysis>\<newline>'',
      ''<earned_points_breakdown>\<newline>'',
      ''[Provide a detailed justification for each point earned, ensuring strict alignment with the rubric.]\<newline>'',
      ''</earned_points_breakdown>\<newline>'',
      ''<missed_points_explanation>\<newline>'',
      ''[Identify which parts did not earn points and provide specific reasons, referencing the rubric.]\<newline>'',
      ''</missed_points_explanation>\<newline>'',
      ''<improvement_suggestions>\<newline>'',
      ''[Provide clear, constructive feedback on how to improve the response to better match the rubric criteria.]\<newline>'',
      ''</improvement_suggestions>\<newline>'',
      ''<score_estimate>\<newline>'',
      ''[Provide an AP-style score estimate based on the rubric.]\<newline>'',
      ''</score_estimate>\<newline>'',
      ''</evaluation>\<newline>'',
      ''Remember to be extremely thorough and critical in your evaluation. Only award points when the student's response very closely matches the rubric criteria or uses appropriate synonyms that convey the same meaning. Ensure that your assessment is fair, consistent, and aligns strictly with AP's expectations for depth, accuracy, and scientific reasoning.\<newline>'']"

subsection \<open>\<open>create_openai_prompt\<close>\<close>

definition openai_prompt_1 :: string where
  "openai_prompt_1 = concat
     [''####\<newline>'',
      ''Task: Generate structured FRQ feedback for an AP Environmental Science response based on the evaluation data provided.\<newline>'',
      ''\<newline>'',
      ''{Evaluation data}\<newline>'']"

definition openai_prompt_2 :: string where
  "openai_prompt_2 = concat
     [''\<newline>'',
      ''\<newline>'',
      ''Instructions:\<newline>'',
      ''Maintain the exact structure below, including headings, sections, and formatting.\<newline>'',
      ''Use the earned points breakdown and missed points explanation to populate the \"What You Did Well\" and \"How to Improve\" sections.\<newline>'',
      ''The final score should match the calculated earned points.\<newline>'',
      ''Ensure the feedback does not give away the correct answer.\<newline>'',
      ''Ensure feedback is detailed, actionable, and aligned with AP Science reasoning standards.\<newline>'',
      ''Use a motivational and constructive tone while pointing out errors.\<newline>'',
      ''You have to use the provided template and not a word outside of the template.\<newline>'',
      ''<template>\<newline>'',
      ''Final Score: [Earned Points]/[Total Points]\<newline>'',
      ''AP Score Estimate: [Estimated AP Score]\<newline>'',
      ''(Your score suggests an overall AP score in the [1-5] range.)\<newline>'',
      ''\<newline>'',
      [CHR 0xE2, CHR 0xAD, CHR 0x90],
      '' To pass (score 3+), aim for 50% or higher on FRQs.\<newline>'',
      [CHR 0xE2, CHR 0xAD, CHR 0x90],
      '' For a 4-5 (college credit level), target 70%+ per FRQ.\<newline>'',
      ''\<newline>'',
      [CHR 0xE2, CHR 0x9C, CHR 0x85],
      '' What You Did Well ([Earned Points]/[Total Points])\<newline>'',
      [CHR 0xF0, CHR 0x9F, CHR 0x93, CHR 0x9D],
      '' Correct Answers: [List of correct parts]\<newline>'',
      [CHR 0xE2, CHR 0x9C, CHR 0x94],
      '' [Key Strength #1]: [Brief positive feedback based on earned points]\<newline>'',
      [CHR 0xE2, CHR 0x9C, CHR 0x94],
      '' [Key Strength #2]: [Another strong point highlighting a well-done aspect]\<newline>'',
      [CHR 0xE2, CHR 0x9C, CHR 0x94],
      '' [Key Strength #3]: [Additional positive element]\<newline>'',
      ''\<newline>'',
      [CHR 0xE2, CHR 0x9A, CHR 0xA0, CHR 0xEF, CHR 0xB8, CHR 0x8F],
      '' How to Improve ([Missed Points]/[Total Points])\<newline>'',
      [CHR 0xF0, CHR 0x9F, CHR 0x94, CHR 0xB9],
      '' Missed Parts:\<newline>'',
      ''[a-ii], b-i]...: '',
      [CHR 0xE2, CHR 0x9D, CHR 0x8C],
      '' \<newline>'',
      ''\<newline>'',
      [CHR 0xF0, CHR 0x9F, CHR 0x94, CHR 0xB9],
      '' (a-ii) [Missed Concept]\<newline>'',
      ''You answered \"[Student Response]\", but it should reflect \"[Correct Concept]\".\<newline>'',
      [CHR 0xF0, CHR 0x9F, CHR 0x92, CHR 0xA1],
      '' Think Like a Scientist: [Guiding question for reconsideration].\<newline>'',
      [CHR 0xF0, CHR 0x9F, CHR 0x93, CHR 0x9D],
      '' Tip: [Strategy to avoid this mistake in the future].\<newline>'',
      ''\<newline>'',
      [CHR 0xF0, CHR 0x9F, CHR 0x94, CHR 0xB9],
      '' (b-i) [Missed Concept]\<newline>'',
      ''Your explanation of [Concept] was [issue: vague/incomplete/inaccurate].\<newline>'',
      [CHR 0xE2, CHR 0x9C, CHR 0x85],
      '' Next Steps: Focus on [specific improvement area] using [scientific reasoning/framework].\<newline>'',
      ''\<newline>'',
      [CHR 0xF0, CHR 0x9F, CHR 0x94, CHR 0xB9],
      '' Next Steps to Improve Your FRQ Score\<newline>'',
      ''\<newline>'',
      [CHR 0xF0, CHR 0x9F, CHR 0x93, CHR 0x8C],
      '' Double-check numerical data before submitting answers to ensure accuracy.\<newline>'',
      [CHR 0xF0, CHR 0x9F, CHR 0x93, CHR 0x8C],
      '' Use specific scientific terminology'',
      [CHR 0xE2, CHR 0x80, CHR 0x94],
      ''avoid vague descriptions and provide precise characteristics.\<newline>'',
      [CHR 0xF0, CHR 0x9F, CHR 0x93, CHR 0x8C],
      '' Practice structuring explanations using reasoning prompts: \"Because ____, this leads to ____.\"\<newline>'',
      [CHR 0xF0, CHR 0x9F, CHR 0x93, CHR 0x8C],
      '' Review key science concepts related to [list of key concepts based on errors] before attempting similar FRQs.\<newline>'',
      [CHR 0xF0, CHR 0x9F, CHR 0x93, CHR 0x8C],
      '' Try rewriting sections (A), (B), and (C) using the strategies above and compare your answers'',
      [CHR 0xE2, CHR 0x80, CHR 0x94],
      ''where do you see improvement\<newline>'',
      ''\<newline>'',
      [CHR 0xF0, CHR 0x9F, CHR 0x9A, CHR 0x80],
      '' Keep practicing! Your reasoning skills are improving, and your score will too! '',
      [CHR 0xF0, CHR 0x9F, CHR 0x8E, CHR 0x89],
      ''\<newline>'',
      ''</template>\<newline>'',
      ''You have to customize the template based on the question, rubric and the answer. You have to follow these steps to customize the template.\<newline>'',
      [CHR 0xF0, CHR 0x9F, CHR 0x93, CHR 0x8C],
      '' How to Customize This Template:\<newline>'',
      ''Adjust [Earned Points], [Missed Points], [Total Points] based on the evaluation.\<newline>'',
      ''Scale 6-point FRQs to a 10-point AP Score Estimate (e.g., 4/6 '',
      [CHR 0xE2, CHR 0x86, CHR 0x92],
      '' 7/10).\<newline>'',
      ''Ensure each part is tagged (e.g., a-i, b-ii) to clarify correct/missed responses.\<newline>'',
      ''Tailor \"Next Steps\" and \" Next Steps to Improve Your FRQ Score\"  based on actual mistakes, not generic advice.\<newline>'',
      ''You have to use the provided template and not a word outside of the template.\<newline>'']"

subsection \<open>\<open>create_environmental_science_html\<close>\<close>

definition env_html_1 :: string where
  "env_html_1 = concat
     [''\<newline>'',
      ''    <style>\<newline>'',
      ''    /* Global styles */\<newline>'',
      ''    .ap-grader-container {\<newline>'',
      ''        font-family: 'Inter', 'Segoe UI', Tahoma, Geneva, Verdana, sans-serif;\<newline>'',
      ''        max-width: 1200px;\<newline>'',
      ''        margin: 0 auto;\<newline>'',
      ''        padding: 20px;\<newline>'',
      ''        background: linear-gradient(135deg, #faf8f5 0%, #fff9f5 100%);\<newline>'',
      ''        border-radius: 12px;\<newline>'',
      ''        box-shadow: 0 4px 6px rgba(0, 0, 0, 0.1);\<newline>'',
      ''    }\<newline>'',
      ''    \<newline>'',
      ''    /* Header style */\<newline>'',
      ''    .ap-header {\<newline>'',
      ''        background: linear-gradient(135deg, #FFE5E5 0%, #FFF0F0 100%);\<newline>'',
      ''        border-radius: 8px;\<newline>'',
      ''        padding: 20px;\<newline>'',
      ''        margin-bottom: 20px;\<newline>'',
      ''        text-align: center;\<newline>'',
      ''        box-shadow: 0 2px 4px rgba(0, 0, 0, 0.05);\<newline>'',
      ''    }\<newline>'',
      ''    \<newline>'',
      ''    .ap-title {\<newline>'',
      ''        font-size: 28px;\<newline>'',
      ''        font-weight: 700;\<newline>'',
      ''        margin: 0;\<newline>'',
      ''        color: #2D3748;\<newline>'',
      ''        background: linear-gradient(120deg, #FF9A9E 0%, #FAD0C4 50%, #FFD1FF 100%);\<newline>'',
      ''        -webkit-background-clip: text;\<newline>'',
      ''        -webkit-text-fill-color: transparent;\<newline>'',
      ''    }\<newline>'',
      ''    \<newline>'',
      ''    .ap-score {\<newline>'',
      ''        display: flex;\<newline>'',
      ''        justify-content: space-around;\<newline>'',
      ''        margin-top: 25px;\<newline>'',
      ''    }\<newline>'',
      ''    \<newline>'',
      ''    .ap-score-item {\<newline>'',
      ''        text-align: center;\<newline>'',
      ''    }\<newline>'',
      ''    \<newline>'',
      ''    .ap-score-label {\<newline>'',
      ''        font-size: 16px;\<newline>'',
      ''        color: #4A5568;\<newline>'',
      ''        margin-bottom: 8px;\<newline>'',
      ''    }\<newline>'',
      ''    \<newline>'',
      ''    .ap-score-value {\<newline>'',
      ''        font-size: 24px;\<newline>'',
      ''        font-weight: 700;\<newline>'',
      ''        color: #2D3748;\<newline>'',
      ''    }\<newline>'',
      ''    \<newline>'',
      ''    /* Card style */\<newline>'',
      ''    .ap-card {\<newline>'',
      ''        background: #fff;\<newline>'',
      ''        border-radius: 8px;\<newline>'',
      ''        margin-bottom: 20px;\<newline>'',
      ''        padding: 20px;\<newline>'',
      ''        box-shadow: 0 2px 4px rgba(0, 0, 0, 0.05);\<newline>'',
      ''        transition: transform 0.3s ease;\<newline>'',
      ''    }\<newline>'',
      ''    \<newline>'',
      ''    .ap-card:hover {\<newline>'',
      ''        transform: translateY(-3px);\<newline>'',
      ''        box-shadow: 0 4px 8px rgba(0, 0, 0, 0.1);\<newline>'',
      ''    }\<newline>'',
      ''    \<newline>'',
      ''    .ap-card-title {\<newline>'',
      ''        font-size: 20px;\<newline>'',
      ''        font-weight: 600;\<newline>'',
      ''        margin-top: 0;\<newline>'',
      ''        margin-bottom: 15px;\<newline>'',
      ''        color: #2D3748;\<newline>'',
      ''        padding-bottom: 10px;\<newline>'',
      ''        border-bottom: 2px solid rgba(255, 154, 158, 0.3);\<newline>'',
      ''    }\<newline>'',
      ''    \<newline>'',
      ''    .ap-content {\<newline>'',
      ''        color: #4A5568;\<newline>'',
      ''        line-height: 1.6;\<newline>'',
      ''    }\<newline>'',
      ''    \<newline>'',
      ''    /* Tab styles */\<newline>'',
      ''    .ap-tabs {\<newline>'',
      ''        display: flex;\<newline>'',
      ''        margin-bottom: 20px;\<newline>'',
      ''    }\<newline>'',
      ''    \<newline>'',
      ''    .ap-tab {\<newline>'',
      ''        padding: 10px 20px;\<newline>'',
      ''        cursor: pointer;\<newline>'',
      ''        border-bottom: 2px solid #ddd;\<newline>'',
      ''        flex: 1;\<newline>'',
      ''        text-align: center;\<newline>'',
      ''        transition: all 0.3s ease;\<newline>'',
      ''    }\<newline>'',
      ''    \<newline>'',
      ''    .ap-tab.active {\<newline>'',
      ''        border-bottom: 2px solid #FF9A9E;\<newline>'',
      ''        color: #FF9A9E;\<newline>'',
      ''        font-weight: 500;\<newline>'',
      ''    }\<newline>'',
      ''    \<newline>'',
      ''    .ap-tab-content {\<newline>'',
      ''        padding: 20px 0;\<newline>'',
      ''    }\<newline>'',
      ''    \<newline>'',
      ''    /* Highlights */\<newline>'',
      ''    .ap-highlight {\<newline>'',
      ''        background: rgba(255, 229, 100, 0.2);\<newline>'',
      ''        padding: 2px 4px;\<newline>'',
      ''        border-radius: 4px;\<newline>'',
      ''    }\<newline>'',
      ''    \<newline>'',
      ''    /* Icons and badges */\<newline>'',
      ''    .ap-icon {\<newline>'',
      ''        vertical-align: middle;\<newline>'',
      ''        margin-right: 6px;\<newline>'',
      ''    }\<newline>'',
      ''    \<newline>'',
      ''    .ap-badge {\<newline>'',
      ''        display: inline-block;\<newline>'',
      ''        padding: 3px 8px;\<newline>'',
      ''        border-radius: 12px;\<newline>'',
      ''        font-size: 14px;\<newline>'',
      ''        font-weight: 500;\<newline>'',
      ''        margin-right: 8px;\<newline>'',
      ''    }\<newline>'',
      ''    \<newline>'',
      ''    .ap-badge-success {\<newline>'',
      ''        background: rgba(72, 187, 120, 0.1);\<newline>'',
      ''        color: #48BB78;\<newline>'',
      ''    }\<newline>'',
      ''    \<newline>'',
      ''    .ap-badge-warning {\<newline>'',
      ''        background: rgba(237, 137, 54, 0.1);\<newline>'',
      ''        color: #ED8936;\<newline>'',
      ''    }\<newline>'',
      ''    \<newline>'',
      ''    .ap-section-content {\<newline>'',
      ''        white-space: pre-line;\<newline>'',
      ''    }\<newline>'',
      ''    </style>\<newline>'',
      ''    \<newline>'',
      ''    <div class=\"ap-grader-container\">\<newline>'',
      ''        <div class=\"ap-header\">\<newline>'',
      ''            <h1 class=\"ap-title\">AP Environmental Science FRQ Evaluation</h1>\<newline>'',
      ''            <div class=\"ap-score\">\<newline>'',
      ''                <div class=\"ap-score-item\">\<newline>'',
      ''                    <div class=\"ap-score-label\">Final Score</div>\<newline>'',
      ''                    <div class=\"ap-score-value\">'']"

definition env_html_2 :: string where
  "env_html_2 = ''/''"

definition env_html_3 :: string where
  "env_html_3 = concat
     [''</div>\<newline>'',
      ''                </div>\<newline>'',
      ''                <div class=\"ap-score-item\">\<newline>'',
      ''                    <div class=\"ap-score-label\">AP Score Estimate</div>\<newline>'',
      ''                    <div class=\"ap-score-value\">'']"

definition env_html_4 :: string where
  "env_html_4 = concat
     [''/5</div>\<newline>'',
      ''                </div>\<newline>'',
      ''            </div>\<newline>'',
      ''        </div>\<newline>'',
      ''        \<newline>'',
      ''        <div class=\"ap-card\">\<newline>'',
      ''            <h2 class=\"ap-card-title\">\<newline>'',
      ''                <span class=\"ap-icon\">'',
      [CHR 0xE2, CHR 0x9C, CHR 0x85],
      ''</span>What You Did Well\<newline>'',
      ''            </h2>\<newline>'',
      ''            <div class=\"ap-content ap-section-content\">\<newline>'',
      ''                '']"

definition env_html_5 :: string where
  "env_html_5 = concat
     [''\<newline>'',
      ''            </div>\<newline>'',
      ''        </div>\<newline>'',
      ''        \<newline>'',
      ''        <div class=\"ap-card\">\<newline>'',
      ''            <h2 class=\"ap-card-title\">\<newline>'',
      ''                <span class=\"ap-icon\">'',
      [CHR 0xE2, CHR 0x9A, CHR 0xA0, CHR 0xEF, CHR 0xB8, CHR 0x8F],
      ''</span>How to Improve\<newline>'',
      ''            </h2>\<newline>'',
      ''            <div class=\"ap-content ap-section-content\">\<newline>'',
      ''                '']"

definition env_html_6 :: string where
  "env_html_6 = concat
     [''\<newline>'',
      ''            </div>\<newline>'',
      ''        </div>\<newline>'',
      ''        \<newline>'',
      ''        <div class=\"ap-card\">\<newline>'',
      ''            <h2 class=\"ap-card-title\">\<newline>'',
      ''                <span class=\"ap-icon\">'',
      [CHR 0xF0, CHR 0x9F, CHR 0x93, CHR 0x8B],
      ''</span>Next Steps\<newline>'',
      ''            </h2>\<newline>'',
      ''            <div class=\"ap-content ap-section-content\">\<newline>'',
      ''                '']"

definition env_html_7 :: string where
  "env_html_7 = concat
     [''\<newline>'',
      ''                \<newline>'',
      ''                <div style=\"margin-top: 20px; text-align: center; font-weight: 500;\">\<newline>'',
      ''                    '',
      [CHR 0xF0, CHR 0x9F, CHR 0x9A, CHR 0x80],
      '' Keep practicing! Your reasoning skills are improving, and your score will too! '',
      [CHR 0xF0, CHR 0x9F, CHR 0x8E, CHR 0x89],
      ''\<newline>'',
      ''                </div>\<newline>'',
      ''            </div>\<newline>'',
      ''        </div>\<newline>'',
      ''        \<newline>'',
      ''        <div class=\"ap-tabs\">\<newline>'',
      ''            <div class=\"ap-tab active\" onclick=\"showTab('summary')\">Summary</div>\<newline>'',
      ''            <div class=\"ap-tab\" onclick=\"showTab('detailed')\">Detailed Analysis</div>\<newline>'',
      ''        </div>\<newline>'',
      ''        \<newline>'',
      ''        <div id=\"summary-tab\" class=\"ap-tab-content\" style=\"display: block;\">\<newline>'',
      ''            <div class=\"ap-card\">\<newline>'',
      ''                <h2 class=\"ap-card-title\">Score Breakdown</h2>\<newline>'',
      ''                <div class=\"ap-content\">\<newline>'',
      ''                    <p>The final score of <strong>'']"

definition env_html_8 :: string where
  "env_html_8 = ''/''"

definition env_html_9 :: string where
  "env_html_9 = ''</strong> suggests an overall AP score in the <strong>''"

definition env_html_10 :: string where
  "env_html_10 = concat
     [''</strong> range.</p>\<newline>'',
      ''                    <p>'',
      [CHR 0xE2, CHR 0xAD, CHR 0x90],
      '' To pass (score 3+), aim for 50% or higher on FRQs.<br>\<newline>'',
      ''                    '',
      [CHR 0xE2, CHR 0xAD, CHR 0x90],
      '' For a 4-5 (college credit level), target 70%+ per FRQ.</p>\<newline>'',
      ''                </div>\<newline>'',
      ''            </div>\<newline>'',
      ''        </div>\<newline>'',
      ''        \<newline>'',
      ''        <div id=\"detailed-tab\" class=\"ap-tab-content\" style=\"display: none;\">\<newline>'',
      ''            <div class=\"ap-card\">\<newline>'',
      ''                <h2 class=\"ap-card-title\">Detailed Evaluation</h2>\<newline>'',
      ''                <div class=\"ap-content\">\<newline>'',
      ''                    <pre style=\"white-space: pre-wrap; font-family: inherit;\">'']"

definition env_html_11 :: string where
  "env_html_11 = concat
     [''</pre>\<newline>'',
      ''                </div>\<newline>'',
      ''            </div>\<newline>'',
      ''        </div>\<newline>'',
      ''    </div>\<newline>'',
      ''    \<newline>'',
      ''    <script>\<newline>'',
      ''    function showTab(tabName) {\<newline>'',
      ''        const tabs = document.querySelectorAll('.ap-tab');\<newline>'',
      ''        const tabContents = document.querySelectorAll('.ap-tab-content');\<newline>'',
      ''        \<newline>'',
      ''        tabs.forEach(tab => tab.classList.remove('active'));\<newline>'',
      ''        tabContents.forEach(content => content.style.display = 'none');\<newline>'',
      ''        \<newline>'',
      ''        if (tabName === 'summary') {\<newline>'',
      ''            document.querySelector('.ap-tab:nth-child(1)').classList.add('active');\<newline>'',
      ''            document.getElementById('summary-tab').style.display = 'block';\<newline>'',
      ''        } else {\<newline>'',
      ''            document.querySelector('.ap-tab:nth-child(2)').classList.add('active');\<newline>'',
      ''            document.getElementById('detailed-tab').style.display = 'block';\<newline>'',
      ''        }\<newline>'',
      ''    }\<newline>'',
      ''    </script>\<newline>'',
      ''    '']"

subsection \<open>\<open>create_language_literature_html\<close>\<close>

definition fact_check_html_1 :: string where
  "fact_check_html_1 = concat
     [''\<newline>'',
      ''            <div class=\"section-container\" style=\"background: #fff7f7;\">\<newline>'',
      ''                <h4 style=\"color: #B83232;\">Fact Check Failed</h4>\<newline>'',
      ''                <p style=\"color: #4A5568;\">\<newline>'',
      ''                    <strong>Reasoning:</strong> '']"

definition fact_check_html_2 :: string where
  "fact_check_html_2 = concat
     [''\<newline>'',
      ''                </p>\<newline>'',
      ''                <p style=\"color: #2D3748;\">\<newline>'',
      ''                    <strong>Your penalized total score is:</strong> '']"

definition fact_check_html_3 :: string where
  "fact_check_html_3 = concat
     [''\<newline>'',
      ''                </p>\<newline>'',
      ''                <p style=\"color: #2D3748;\">\<newline>'',
      ''                    <strong>If you hadn't made this error, here's how you would have scored:</strong> '']"

definition fact_check_html_4 :: string where
  "fact_check_html_4 = concat
     [''\<newline>'',
      ''                </p>\<newline>'',
      ''            </div>\<newline>'',
      ''            '']"

definition lang_lit_html_1 :: string where
  "lang_lit_html_1 = concat
     [''\<newline>'',
      ''        <style>\<newline>'',
      ''        /* Global styles */\<newline>'',
      ''        @import url('https://fonts.googleapis.com/css2?family=Poppins:wght@300;400;500;600;700&display=swap');\<newline>'',
      ''        @import url('https://fonts.googleapis.com/css2?family=Inter:wght@400;500;600&display=swap');\<newline>'',
      ''\<newline>'',
      ''        body {\<newline>'',
      ''            font-family: 'Inter', sans-serif;\<newline>'',
      ''            background: linear-gradient(to right, #F2FCFE, #FDFCFB) !important;\<newline>'',
      ''        }\<newline>'',
      ''\<newline>'',
      ''        /* Ensure smooth transitions for all elements */\<newline>'',
      ''        * {\<newline>'',
      ''            transition: all 0.2s ease-in-out;\<newline>'',
      ''        }\<newline>'',
      ''\<newline>'',
      ''        .section-container {\<newline>'',
      ''            background: rgba(255, 255, 255, 0.95);\<newline>'',
      ''            border-radius: 20px;\<newline>'',
      ''            padding: 2rem;\<newline>'',
      ''            margin: 1.5rem 0;\<newline>'',
      ''            box-shadow: 0 10px 30px rgba(0, 0, 0, 0.06);\<newline>'',
      ''            transition: transform 0.3s cubic-bezier(0.4, 0, 0.2, 1),\<newline>'',
      ''                        box-shadow 0.3s cubic-bezier(0.4, 0, 0.2, 1);\<newline>'',
      ''        }\<newline>'',
      ''\<newline>'',
      ''        .section-container:hover {\<newline>'',
      ''            transform: translateY(-4px);\<newline>'',
      ''            box-shadow: 0 20px 40px rgba(0, 0, 0, 0.08);\<newline>'',
      ''        }\<newline>'',
      ''\<newline>'',
      ''        .result-table {\<newline>'',
      ''            width: 100%;\<newline>'',
      ''            border-collapse: collapse;\<newline>'',
      ''            background: #fff;\<newline>'',
      ''            border-radius: 12px;\<newline>'',
      ''            overflow: hidden;\<newline>'',
      ''            margin-bottom: 1rem;\<newline>'',
      ''        }\<newline>'',
      ''\<newline>'',
      ''        .result-table th,\<newline>'',
      ''        .result-table td {\<newline>'',
      ''            padding: 1rem;\<newline>'',
      ''            text-align: left;\<newline>'',
      ''            border-bottom: 1px solid #eee;\<newline>'',
      ''            vertical-align: top;\<newline>'',
      ''        }\<newline>'',
      ''\<newline>'',
      ''        .result-table th {\<newline>'',
      ''            background-color: #f9f9f9;\<newline>'',
      ''            text-transform: uppercase;\<newline>'',
      ''            font-size: 0.85rem;\<newline>'',
      ''            color: #444;\<newline>'',
      ''        }\<newline>'',
      ''\<newline>'',
      ''        .result-table tr:hover {\<newline>'',
      ''            background-color: #f6faff;\<newline>'',
      ''            transition: background-color 0.3s ease-in-out;\<newline>'',
      ''        }\<newline>'',
      ''\<newline>'',
      ''        .summary-row {\<newline>'',
      ''            background-color: #FFF7E6;\<newline>'',
      ''            color: #333;\<newline>'',
      ''        }\<newline>'',
      ''\<newline>'',
      ''        .total-score {\<newline>'',
      ''            background: linear-gradient(135deg, #FFF5F5 0%, #FFF0F0 100%);\<newline>'',
      ''            text-align: center;\<newline>'',
      ''            font-size: 1.5rem;\<newline>'',
      ''            font-weight: 700;\<newline>'',
      ''            color: #2D3748;\<newline>'',
      ''        }\<newline>'',
      ''        </style>\<newline>'',
      ''\<newline>'',
      ''        <div style=\"padding: 20px; max-width: 1200px; margin: 0 auto;\">\<newline>'',
      ''            '']"

definition lang_lit_html_2 :: string where
  "lang_lit_html_2 = concat
     [''\<newline>'',
      ''            \<newline>'',
      ''            <div class=\"section-container\">\<newline>'',
      ''                <table class=\"result-table\">\<newline>'',
      ''                    <tbody>\<newline>'',
      ''                        <tr class=\"total-score\">\<newline>'',
      ''                            <td colspan=\"4\" style=\"text-align: center; font-size: 1.5rem; font-weight: 700; color: #2D3748;\">\<newline>'',
      ''                                Total Score: '']"

definition lang_lit_html_3 :: string where
  "lang_lit_html_3 = concat
     [''\<newline>'',
      ''                            </td>\<newline>'',
      ''                        </tr>\<newline>'',
      ''                        <tr class=\"summary-row\">\<newline>'',
      ''                            <td colspan=\"4\" style=\"text-align: left; padding: 1rem;\">\<newline>'',
      ''                                <div style=\"max-width: 800px; margin: 0 auto;\">\<newline>'',
      ''                                    <h3 style=\"color: #2D3748; margin-bottom: 0.5rem; font-size: 1.25rem;\">\<newline>'',
      ''                                        Overall Assessment\<newline>'',
      ''                                    </h3>\<newline>'',
      ''                                    <p style=\"line-height: 1.8; color: #4A5568;\">\<newline>'',
      ''                                        '']"

definition lang_lit_html_4 :: string where
  "lang_lit_html_4 = concat
     [''\<newline>'',
      ''                                    </p>\<newline>'',
      ''                                </div>\<newline>'',
      ''                            </td>\<newline>'',
      ''                        </tr>\<newline>'',
      ''                        <tr>\<newline>'',
      ''                            <th>Category</th>\<newline>'',
      ''                            <th>Score</th>\<newline>'',
      ''                            <th>Commentary</th>\<newline>'',
      ''                            <th>Improvements</th>\<newline>'',
      ''                        </tr>\<newline>'',
      ''                        <tr>\<newline>'',
      ''                            <td><strong>Thesis</strong></td>\<newline>'',
      ''                            <td style=\"text-align: center; font-size: 1.25rem; font-weight: 600; color: #2D3748;\">\<newline>'',
      ''                                '']"

definition lang_lit_html_5 :: string where
  "lang_lit_html_5 = concat
     [''\<newline>'',
      ''                            </td>\<newline>'',
      ''                            <td>'']"

definition lang_lit_html_6 :: string where
  "lang_lit_html_6 = concat
     [''</td>\<newline>'',
      ''                            <td>'']"

definition lang_lit_html_7 :: string where
  "lang_lit_html_7 = concat
     [''</td>\<newline>'',
      ''                        </tr>\<newline>'',
      ''                        <tr>\<newline>'',
      ''                            <td><strong>Evidence & Commentary</strong></td>\<newline>'',
      ''                            <td style=\"text-align: center; font-size: 1.25rem; font-weight: 600; color: #2D3748;\">\<newline>'',
      ''                                '']"

definition lang_lit_html_8 :: string where
  "lang_lit_html_8 = concat
     [''\<newline>'',
      ''                            </td>\<newline>'',
      ''                            <td>'']"

definition lang_lit_html_9 :: string where
  "lang_lit_html_9 = concat
     [''</td>\<newline>'',
      ''                            <td>'']"

definition lang_lit_html_10 :: string where
  "lang_lit_html_10 = concat
     [''</td>\<newline>'',
      ''                        </tr>\<newline>'',
      ''                        <tr>\<newline>'',
      ''                            <td><strong>Sophistication</strong></td>\<newline>'',
      ''                            <td style=\"text-align: center; font-size: 1.25rem; font-weight: 600; color: #2D3748;\">\<newline>'',
      ''                                '']"

definition lang_lit_html_11 :: string where
  "lang_lit_html_11 = concat
     [''\<newline>'',
      ''                            </td>\<newline>'',
      ''                            <td>'']"

definition lang_lit_html_12 :: string where
  "lang_lit_html_12 = concat
     [''</td>\<newline>'',
      ''                            <td>'']"

definition lang_lit_html_13 :: string where
  "lang_lit_html_13 = concat
     [''</td>\<newline>'',
      ''                        </tr>\<newline>'',
      ''                    </tbody>\<newline>'',
      ''                </table>\<newline>'',
      ''            </div>\<newline>'',
      ''        </div>\<newline>'',
      ''        '']"

definition lang_lit_error_html_1 :: string where
  "lang_lit_error_html_1 = concat
     [''\<newline>'',
      ''        <div style=\"color: red; padding: 20px; text-align: center;\">\<newline>'',
      ''            <h2>Error generating HTML view</h2>\<newline>'',
      ''            <p>There was an error processing the grading results: '']"

definition lang_lit_error_html_2 :: string where
  "lang_lit_error_html_2 = concat
     [''</p>\<newline>'',
      ''        </div>\<newline>'',
      ''        '']"

subsection \<open>\<open>create_general_course_html\<close>\<close>

definition general_html_1 :: string where
  "general_html_1 = concat
     [''\<newline>'',
      ''        <style>\<newline>'',
      ''        body {\<newline>'',
      ''            font-family: 'Inter', 'Segoe UI', Tahoma, Geneva, Verdana, sans-serif;\<newline>'',
      ''            background: linear-gradient(to right, #F2FCFE, #FDFCFB) !important;\<newline>'',
      ''        }\<newline>'',
      ''\<newline>'',
      ''        .ap-general-container {\<newline>'',
      ''            max-width: 1200px;\<newline>'',
      ''            margin: 0 auto;\<newline>'',
      ''            padding: 20px;\<newline>'',
      ''            background: rgba(255, 255, 255, 0.8);\<newline>'',
      ''            backdrop-filter: blur(6px);\<newline>'',
      ''            border-radius: 16px;\<newline>'',
      ''            box-shadow: 0 10px 25px rgba(0,0,0,0.1);\<newline>'',
      ''        }\<newline>'',
      ''        \<newline>'',
      ''        .ap-general-title {\<newline>'',
      ''            font-size: 28px;\<newline>'',
      ''            font-weight: 700;\<newline>'',
      ''            text-align: center;\<newline>'',
      ''            margin-bottom: 30px;\<newline>'',
      ''            color: #2D3748;\<newline>'',
      ''            background: linear-gradient(90deg, #FF9A9E, #FAD0C4, #FFD1FF);\<newline>'',
      ''            -webkit-background-clip: text;\<newline>'',
      ''            -webkit-text-fill-color: transparent;\<newline>'',
      ''        }\<newline>'',
      ''        \<newline>'',
      ''        .ap-results-table {\<newline>'',
      ''            width: 100%;\<newline>'',
      ''            border-collapse: collapse;\<newline>'',
      ''            background: #fff;\<newline>'',
      ''            border-radius: 12px;\<newline>'',
      ''            overflow: hidden;\<newline>'',
      ''            margin-bottom: 1rem;\<newline>'',
      ''        }\<newline>'',
      ''        \<newline>'',
      ''        .ap-results-table th,\<newline>'',
      ''        .ap-results-table td {\<newline>'',
      ''            padding: 1rem;\<newline>'',
      ''            text-align: left;\<newline>'',
      ''            border-bottom: 1px solid #eee;\<newline>'',
      ''            vertical-align: top;\<newline>'',
      ''        }\<newline>'',
      ''        \<newline>'',
      ''        .ap-results-table th {\<newline>'',
      ''            background-color: #f9f9f9;\<newline>'',
      ''            text-transform: uppercase;\<newline>'',
      ''            font-size: 0.85rem;\<newline>'',
      ''            color: #444;\<newline>'',
      ''            text-align: center;\<newline>'',
      ''        }\<newline>'',
      ''        \<newline>'',
      ''        .ap-results-table tr:hover {\<newline>'',
      ''            background-color: #f6faff;\<newline>'',
      ''            transition: background-color 0.3s ease-in-out;\<newline>'',
      ''        }\<newline>'',
      ''        \<newline>'',
      ''        .ap-label {\<newline>'',
      ''            font-weight: 600;\<newline>'',
      ''            color: #4A5568;\<newline>'',
      ''        }\<newline>'',
      ''        \<newline>'',
      ''        .ap-value {\<newline>'',
      ''            color: #2D3748;\<newline>'',
      ''        }\<newline>'',
      ''        \<newline>'',
      ''        .ap-rationale {\<newline>'',
      ''            padding: 16px 24px;\<newline>'',
      ''            line-height: 1.6;\<newline>'',
      ''        }\<newline>'',
      ''        \<newline>'',
      ''        .ap-feedback-section {\<newline>'',
      ''            background: rgba(255, 255, 255, 0.9);\<newline>'',
      ''            border-radius: 16px;\<newline>'',
      ''            padding: 20px;\<newline>'',
      ''            margin-top: 20px;\<newline>'',
      ''            box-shadow: 0 10px 25px rgba(0,0,0,0.05);\<newline>'',
      ''        }\<newline>'',
      ''        \<newline>'',
      ''        .ap-feedback-title {\<newline>'',
      ''            font-size: 22px;\<newline>'',
      ''            font-weight: 600;\<newline>'',
      ''            margin-top: 0;\<newline>'',
      ''            margin-bottom: 20px;\<newline>'',
      ''            color: #2D3748;\<newline>'',
      ''            padding-bottom: 10px;\<newline>'',
      ''            border-bottom: 2px solid rgba(255, 154, 158, 0.3);\<newline>'',
      ''        }\<newline>'',
      ''        \<newline>'',
      ''        .ap-feedback-list {\<newline>'',
      ''            padding-left: 20px;\<newline>'',
      ''            margin-bottom: 0;\<newline>'',
      ''        }\<newline>'',
      ''        \<newline>'',
      ''        .ap-feedback-list li {\<newline>'',
      ''            margin-bottom: 12px;\<newline>'',
      ''            line-height: 1.6;\<newline>'',
      ''            color: #4A5568;\<newline>'',
      ''        }\<newline>'',
      ''        \<newline>'',
      ''        .ap-feedback-list li:last-child {\<newline>'',
      ''            margin-bottom: 0;\<newline>'',
      ''        }\<newline>'',
      ''        </style>\<newline>'',
      ''        \<newline>'',
      ''        <div class=\"ap-general-container\">\<newline>'',
      ''            <h1 class=\"ap-general-title\">AP FRQ Evaluation Results</h1>\<newline>'',
      ''            \<newline>'',
      ''            <table class=\"ap-results-table\">\<newline>'',
      ''                <thead>\<newline>'',
      ''                    <tr>\<newline>'',
      ''                        <th colspan=\"2\">OVERALL RESULTS</th>\<newline>'',
      ''                    </tr>\<newline>'',
      ''                </thead>\<newline>'',
      ''                <tbody>\<newline>'',
      ''                    <tr>\<newline>'',
      ''                        <td class=\"ap-label\">Total Points</td>\<newline>'',
      ''                        <td class=\"ap-value\">'']"

definition general_html_2 :: string where
  "general_html_2 = concat
     [''</td>\<newline>'',
      ''                    </tr>\<newline>'',
      ''                    <tr>\<newline>'',
      ''                        <td class=\"ap-label\">Awarded Points</td>\<newline>'',
      ''                        <td class=\"ap-value\">'']"

definition general_html_3 :: string where
  "general_html_3 = concat
     [''</td>\<newline>'',
      ''                    </tr>\<newline>'',
      ''                    <tr>\<newline>'',
      ''                        <td class=\"ap-label\">Score (%)</td>\<newline>'',
      ''                        <td class=\"ap-value\">'']"

definition general_html_4 :: string where
  "general_html_4 = concat
     [''%</td>\<newline>'',
      ''                    </tr>\<newline>'',
      ''                    <tr>\<newline>'',
      ''                        <td class=\"ap-label\">Rationale</td>\<newline>'',
      ''                        <td class=\"ap-rationale\">'']"

definition general_html_5 :: string where
  "general_html_5 = concat
     [''</td>\<newline>'',
      ''                    </tr>\<newline>'',
      ''                </tbody>\<newline>'',
      ''            </table>\<newline>'',
      ''            \<newline>'',
      ''            <div class=\"ap-feedback-section\">\<newline>'',
      ''                <h2 class=\"ap-feedback-title\">Feedback to the Student:</h2>\<newline>'',
      ''                <ol class=\"ap-feedback-list\">\<newline>'',
      ''                    '']"

definition general_html_6 :: string where
  "general_html_6 = concat
     [''\<newline>'',
      ''                </ol>\<newline>'',
      ''            </div>\<newline>'',
      ''        </div>\<newline>'',
      ''        '']"

subsection \<open>\<open>create_scoring_prompt\<close> of \<open>ap-frq-grader.py\<close>\<close>

definition scoring_prompt_1 :: string where
  "scoring_prompt_1 = concat
     [''You are an encouraging AP teacher providing personalized feedback to help students improve. Your role is to evaluate their work and offer constructive guidance. When writing feedback, imagine having a supportive one-on-one conversation with the student.\<newline>'',
      ''\<newline>'',
      ''Task Description:\<newline>'',
      ''1. Review the student's work with an encouraging mindset\<newline>'',
      ''2. Calculate points earned and total possible points\<newline>'',
      ''3. Determine the percentage score\<newline>'',
      ''4. Explain the score in a way that recognizes strengths while gently pointing out areas for growth\<newline>'',
      ''5. Provide specific, actionable suggestions for improvement\<newline>'',
      ''\<newline>'',
      ''Components to Evaluate:\<newline>'',
      ''Question Answered: '']"

definition scoring_prompt_2 :: string where
  "scoring_prompt_2 = concat
     [''\<newline>'',
      ''Student's Response: '']"

definition scoring_prompt_3 :: string where
  "scoring_prompt_3 = concat
     [''\<newline>'',
      ''Scoring Criteria: '']"

definition scoring_prompt_4 :: string where
  "scoring_prompt_4 = concat
     [''\<newline>'',
      ''\<newline>'',
      ''If no scoring rubric is provided, evaluate the response based on:\<newline>'',
      ''1. The question's complexity (setting appropriate total points: 3-5 for basic questions, 5-10 for complex ones)\<newline>'',
      ''2. These key aspects of the student's answer:\<newline>'',
      ''   - How thoroughly the question was addressed\<newline>'',
      ''   - The depth of understanding demonstrated\<newline>'',
      ''   - Effective use of course concepts and terminology\<newline>'',
      ''   - Clarity and strength of reasoning\<newline>'',
      ''   - Organization of thoughts\<newline>'',
      ''\<newline>'',
      ''CRITICAL INSTRUCTIONS:\<newline>'',
      ''1. Respond with a JSON object containing these specific fields:\<newline>'',
      ''   - total_points: The maximum points possible for this question\<newline>'',
      ''   - awarded_points: The points earned by the student's response\<newline>'',
      ''   - score: The percentage score (awarded_points / total_points) * 100\<newline>'',
      ''   - rationale_for_the_score: A personalized 2-3 line explanation of the score, highlighting what the student did well and where they can grow\<newline>'',
      ''   - feedback_to_the_student: Three specific suggestions written encouragingly (e.g., \"Consider including more...\")\<newline>'',
      ''\<newline>'',
      ''IMPORTANT ADDITIONAL INSTRUCTION:\<newline>'',
      ''If the student's answer is similar to the reference text or is a direct copy-paste of the reference text, you must award zero points in awarded_points and score and explain the reason in the rationale. The total points would be according to the total number of parts and information required by the question, etc.\<newline>'',
      ''\<newline>'',
      ''2. Format Requirements:\<newline>'',
      ''   - Use this exact JSON format:\<newline>'']"

definition scoring_prompt_5 :: string where
  "scoring_prompt_5 = concat
     [''\<newline>'',
      ''   - Keep all feedback within the JSON structure\<newline>'',
      ''   - Avoid any additional formatting\<newline>'',
      ''\<newline>'',
      ''Note: All feedback should be:\<newline>'',
      ''- Personalized to the student's response\<newline>'',
      ''- Specific and actionable\<newline>'',
      ''- Encouraging and constructive\<newline>'',
      ''- Focused on improvement\<newline>'',
      ''- Relevant to AP course standards\<newline>'',
      ''\<newline>'',
      ''PENALTY WARNING: Any response not in the exact JSON format specified above will result in a penalty. Make sure all feedback is specific, actionable, and directly related to the AP course standards.\<newline>'']"

definition scoring_response_schema_text :: string where
  \<comment> \<open>\<open>json.dumps(SCORING_RESPONSE_SCHEMA, indent=2)\<close>\<close>
  "scoring_response_schema_text = concat
     [''{\<newline>'',
      ''  \"total_points\": \"<maximum points possible based on rubric>\",\<newline>'',
      ''  \"awarded_points\": \"<points the student earned on this response>\",\<newline>'',
      ''  \"score\": \"<student's percentage score (awarded_points / total_points) * 100>\",\<newline>'',
      ''  \"rationale_for_the_score\": \"<personalized explanation of the student's score highlighting strengths and areas for growth>\",\<newline>'',
      ''  \"feedback_to_the_student\": [\<newline>'',
      ''    \"<first specific suggestion to help the student improve>\",\<newline>'',
      ''    \"<second specific suggestion to help the student improve>\",\<newline>'',
      ''    \"<third specific suggestion to help the student improve>\"\<newline>'',
      ''  ]\<newline>'',
      ''}'']"

section \<open>The upstream services and the retrying wrappers\<close>

text \<open>
  The services are outside the program. A run of the program meets them through
  \<open>upstream\<close>, which gives the outcome of every call by its number, and leaves a trace:
  the list of the calls it made and of the pauses it took, in order.
\<close>

datatype http_reply =
    Refused string  \<comment> \<open>\<open>requests.post\<close> raises; the text is the message of the exception\<close>
  | Reply nat string  \<comment> \<open>a response: \<open>status_code\<close> and \<open>text\<close>\<close>

datatype completion =
    Failed string  \<comment> \<open>\<open>chat.completions.create\<close> raises\<close>
  | Choices "string option list"  \<comment> \<open>\<open>message.content\<close> of every choice, \<open>None\<close> for no content\<close>

record upstream =
  claude_post :: "nat \<Rightarrow> http_reply"
    \<comment> \<open>the outcome of the POST to \<open>CLAUDE_API_URL\<close> that \<open>n\<close> earlier ones precede\<close>
  openai_create :: "nat \<Rightarrow> completion"
    \<comment> \<open>the outcome of the call of the OpenAI client that \<open>n\<close> earlier ones precede\<close>
  endpoint_post :: "string \<Rightarrow> http_reply"
    \<comment> \<open>the outcome of the POST to the scoring endpoint of this URL\<close>
  calculations_check :: "string \<Rightarrow> exc + bool \<times> string"
    \<comment> \<open>\<open>rounding_check.calculations_check\<close>, which is not among the sources: it raises, or
        returns \<open>requires_calculation\<close> and \<open>reasoning\<close>\<close>

datatype 'f event =
    Claude_post string  \<comment> \<open>a POST to \<open>CLAUDE_API_URL\<close>; the text is the content of the one message\<close>
  | Openai_create string  \<comment> \<open>a call of the OpenAI client, with the content of the one message\<close>
  | Endpoint_post string "'f json"  \<comment> \<open>a POST of a JSON payload to a scoring endpoint\<close>
  | Calculations_check string
  | Sleep nat  \<comment> \<open>\<open>asyncio.sleep\<close> or \<open>time.sleep\<close>, in seconds\<close>

fun is_claude_post :: "'f event \<Rightarrow> bool" where
  "is_claude_post (Claude_post p) = True"
| "is_claude_post _ = False"

fun is_openai_create :: "'f event \<Rightarrow> bool" where
  "is_openai_create (Openai_create p) = True"
| "is_openai_create _ = False"

fun is_sleep :: "'f event \<Rightarrow> bool" where
  "is_sleep (Sleep n) = True"
| "is_sleep _ = False"

datatype 'a flow =
    Return 'a
  | Raise exc
  | Continue  \<comment> \<open>the loop goes on with its next round\<close>

definition claude_text :: "'f runtime \<Rightarrow> string \<Rightarrow> exc + 'f json" where
  \<comment> \<open>what \<open>call_claude_api\<close> returns for the body of a response with status 200\<close>
  "claude_text rt body =
     (case json_loads rt body of
        Inl _ \<Rightarrow> Inl JSONDecodeError
      | Inr data \<Rightarrow>
          and_then (py_contains data ''content'') (\<lambda>has_content.
            if has_content then
              and_then (py_item data ''content'') (\<lambda>content.
                case content of
                  JArr (first # _) \<Rightarrow> py_item first ''text''
                | _ \<Rightarrow> py_get data ''text'' (JStr []))
            else py_get data ''text'' (JStr [])))"

definition claude_try :: "'f runtime \<Rightarrow> http_reply \<Rightarrow> nat \<Rightarrow> 'f json flow" where
  \<comment> \<open>the \<open>try\<close> block of one round of \<open>call_claude_api\<close>\<close>
  "claude_try rt reply attempt =
     (case reply of
        Refused msg \<Rightarrow> Raise (ConnectionError msg)
      | Reply status_code text \<Rightarrow>
          (if status_code = 200 then
             (case claude_text rt text of Inl e \<Rightarrow> Raise e | Inr v \<Rightarrow> Return v)
           else if attempt < 2 then Continue
           else Raise (HTTPException status_code (''Claude API call failed: '' @ text))))"

definition claude_round :: "'f runtime \<Rightarrow> http_reply \<Rightarrow> nat \<Rightarrow> 'f json flow" where
  \<comment> \<open>one round of \<open>call_claude_api\<close>: \<open>except Exception\<close> also catches the
      \<open>HTTPException\<close> that the \<open>try\<close> block raises itself. \<open>Continue\<close> comes after the
      pause of 4 seconds.\<close>
  "claude_round rt reply attempt =
     (case claude_try rt reply attempt of
        Raise e \<Rightarrow>
          (if attempt < 2 then Continue
           else Raise (HTTPException 500 (''Error calling Claude API: '' @ str_exc rt e)))
      | r \<Rightarrow> r)"

fun claude_loop ::
  "'f runtime \<Rightarrow> upstream \<Rightarrow> string \<Rightarrow> nat list \<Rightarrow> 'f event list \<Rightarrow> (exc + 'f json) \<times> 'f event list"
where
  \<comment> \<open>\<open>for attempt in ...\<close>; a loop that ends without \<open>return\<close> gives \<open>None\<close>\<close>
  "claude_loop rt up prompt [] tr = (Inr JNull, tr)"
| "claude_loop rt up prompt (attempt # attempts) tr =
     (case claude_round rt (claude_post up (length (filter is_claude_post tr))) attempt of
        Return v \<Rightarrow> (Inr v, tr @ [Claude_post prompt])
      | Raise e \<Rightarrow> (Inl e, tr @ [Claude_post prompt])
      | Continue \<Rightarrow> claude_loop rt up prompt attempts (tr @ [Claude_post prompt, Sleep 4]))"

definition call_claude_api ::
  "'f runtime \<Rightarrow> upstream \<Rightarrow> string \<Rightarrow> 'f event list \<Rightarrow> (exc + 'f json) \<times> 'f event list"
where
  \<comment> \<open>\<open>messages\<close> is always the one message of the user; the argument is its content\<close>
  "call_claude_api rt up prompt tr = claude_loop rt up prompt [0, 1, 2] tr"

definition openai_round :: "'f runtime \<Rightarrow> completion \<Rightarrow> nat \<Rightarrow> 'f json flow" where
  \<comment> \<open>one round of \<open>call_openai_api\<close>: \<open>response.choices[0].message.content\<close>\<close>
  "openai_round rt outcome attempt =
     (case (case outcome of
              Failed msg \<Rightarrow> Raise (APIError msg)
            | Choices [] \<Rightarrow> Raise IndexError
            | Choices (None # _) \<Rightarrow> Return JNull
            | Choices (Some content # _) \<Rightarrow> Return (JStr content)) of
        Raise e \<Rightarrow>
          (if attempt < 2 then Continue
           else Raise (HTTPException 500 (''Error calling OpenAI API: '' @ str_exc rt e)))
      | r \<Rightarrow> r)"

fun openai_loop ::
  "'f runtime \<Rightarrow> upstream \<Rightarrow> string \<Rightarrow> nat list \<Rightarrow> 'f event list \<Rightarrow> (exc + 'f json) \<times> 'f event list"
where
  "openai_loop rt up prompt [] tr = (Inr JNull, tr)"
| "openai_loop rt up prompt (attempt # attempts) tr =
     (case openai_round rt (openai_create up (length (filter is_openai_create tr))) attempt of
        Return v \<Rightarrow> (Inr v, tr @ [Openai_create prompt])
      | Raise e \<Rightarrow> (Inl e, tr @ [Openai_create prompt])
      | Continue \<Rightarrow> openai_loop rt up prompt attempts (tr @ [Openai_create prompt, Sleep 4]))"

definition call_openai_api ::
  "'f runtime \<Rightarrow> upstream \<Rightarrow> string \<Rightarrow> 'f event list \<Rightarrow> (exc + 'f json) \<times> 'f event list"
where
  "call_openai_api rt up prompt tr = openai_loop rt up prompt [0, 1, 2] tr"

section \<open>The prompts\<close>

definition create_classification_prompt :: "string \<Rightarrow> string \<Rightarrow> string" where
  "create_classification_prompt course_title question =
     concat [classification_prompt_1, course_title, classification_prompt_2, question,
             classification_prompt_3]"

definition create_claude_prompt :: "string \<Rightarrow> string \<Rightarrow> string \<Rightarrow> string \<Rightarrow> string" where
  "create_claude_prompt question student_answer scoring_rubric image_data =
     concat [claude_prompt_1, question, claude_prompt_2, image_data, claude_prompt_3,
             scoring_rubric, claude_prompt_4, student_answer, claude_prompt_5]"

definition create_openai_prompt :: "string \<Rightarrow> string" where
  \<comment> \<open>the argument is the text that the format string puts in place of
      \<open>{evaluation_data}\<close>\<close>
  "create_openai_prompt evaluation_data =
     concat [openai_prompt_1, evaluation_data, openai_prompt_2]"

definition create_scoring_prompt :: "string \<Rightarrow> string \<Rightarrow> string \<Rightarrow> string" where
  \<comment> \<open>of \<open>ap-frq-grader.py\<close>\<close>
  "create_scoring_prompt question student_answer scoring_rubric =
     concat [scoring_prompt_1, question, scoring_prompt_2, student_answer, scoring_prompt_3,
             scoring_rubric, scoring_prompt_4, scoring_response_schema_text, scoring_prompt_5]"

definition classify_frq_course ::
  "'f runtime \<Rightarrow> upstream \<Rightarrow> string \<Rightarrow> string \<Rightarrow> 'f event list \<Rightarrow> (exc + 'f json) \<times> 'f event list"
where
  \<comment> \<open>\<open>json.loads\<close> of a value that is not a string raises \<open>TypeError\<close>\<close>
  "classify_frq_course rt up course_title question tr =
     (case call_claude_api rt up (create_classification_prompt course_title question) tr of
        (Inl e, tr') \<Rightarrow> (Inl e, tr')
      | (Inr response_text, tr') \<Rightarrow>
          (case response_text of
             JStr text \<Rightarrow> (extract_course rt text course_title, tr')
           | _ \<Rightarrow> (Inl TypeError, tr')))"

section \<open>Scores and reports\<close>

definition extract_score_from_env_science ::
  "'f runtime \<Rightarrow> 'f json \<Rightarrow> 'f json \<Rightarrow> exc + 'f \<times> 'f"
where
  \<comment> \<open>\<open>re.search\<close> raises \<open>TypeError\<close> for a value that is not a string\<close>
  "extract_score_from_env_science rt scoring_response feedback_response =
     (case feedback_response of
        JStr feedback \<Rightarrow>
          (case search (match_score ''Final Score: '') feedback of
             Some (earned, possible) \<Rightarrow>
               Inr (float_of_literal rt earned, float_of_literal rt possible)
           | None \<Rightarrow>
               (case scoring_response of
                  JStr scoring \<Rightarrow>
                    (case search match_score_estimate scoring of
                       Some (earned, possible) \<Rightarrow>
                         Inr (float_of_literal rt earned, float_of_literal rt possible)
                     | None \<Rightarrow> Inr (float_of_literal rt ''0.0'', float_of_literal rt ''0.0''))
                | _ \<Rightarrow> Inl TypeError))
      | _ \<Rightarrow> Inl TypeError)"

definition heading_did_well :: string where
  "heading_did_well = [CHR 0xE2, CHR 0x9C, CHR 0x85] @ '' What You Did Well''"

definition heading_improve :: string where
  "heading_improve = [CHR 0xE2, CHR 0x9A, CHR 0xA0, CHR 0xEF, CHR 0xB8, CHR 0x8F] @ '' How to Improve''"

definition heading_next_steps :: string where
  "heading_next_steps =
     [CHR 0xF0, CHR 0x9F, CHR 0x94, CHR 0xB9] @ '' Next Steps to Improve Your FRQ Score''"

definition warning_sign :: string where
  "warning_sign = [CHR 0xE2, CHR 0x9A, CHR 0xA0, CHR 0xEF, CHR 0xB8, CHR 0x8F]"

definition rocket :: string where
  "rocket = [CHR 0xF0, CHR 0x9F, CHR 0x9A, CHR 0x80]"

definition env_html ::
  "string \<Rightarrow> string \<Rightarrow> string \<Rightarrow> string \<Rightarrow> string \<Rightarrow> string \<Rightarrow> string \<Rightarrow> string"
where
  \<comment> \<open>the format string of \<open>create_environmental_science_html\<close>\<close>
  "env_html earned_points total_points ap_score did_well_section improve_section
       next_steps_section scoring_response =
     concat [env_html_1, earned_points, env_html_2, total_points, env_html_3, ap_score,
             env_html_4, did_well_section, env_html_5, improve_section, env_html_6,
             next_steps_section, env_html_7, earned_points, env_html_8, total_points,
             env_html_9, ap_score, env_html_10, scoring_response, env_html_11]"

definition create_environmental_science_html ::
  "'f runtime \<Rightarrow> 'f json \<Rightarrow> 'f json \<Rightarrow> exc + string"
where
  "create_environmental_science_html rt scoring_response feedback_response =
     (case feedback_response of
        JStr feedback \<Rightarrow>
          (let score_match = search (match_score ''Final Score: '') feedback;
               earned_points = (case score_match of Some (e, p) \<Rightarrow> e | None \<Rightarrow> ''?'');
               total_points = (case score_match of Some (e, p) \<Rightarrow> p | None \<Rightarrow> ''?'');
               ap_score =
                 (case search (match_digits ''AP Score Estimate: '') feedback of
                    Some d \<Rightarrow> d
                  | None \<Rightarrow> ''?'');
               did_well_section =
                 (case search (match_section heading_did_well [warning_sign]) feedback of
                    Some m \<Rightarrow> m
                  | None \<Rightarrow> []);
               improve_section =
                 (case search (match_section heading_improve [rocket]) feedback of
                    Some m \<Rightarrow> m
                  | None \<Rightarrow> []);
               next_steps_section =
                 (case search (match_section heading_next_steps [rocket]) feedback of
                    Some m \<Rightarrow> m
                  | None \<Rightarrow> [])
           in Inr (env_html earned_points total_points ap_score did_well_section
                     improve_section next_steps_section (py_str rt scoring_response)))
      | _ \<Rightarrow> Inl TypeError)"

definition fact_check_html :: "string \<Rightarrow> string \<Rightarrow> string \<Rightarrow> string" where
  \<comment> \<open>the format string of the block that reports a failed fact check\<close>
  "fact_check_html reasoning penalized_total_score total_score =
     concat [fact_check_html_1, reasoning, fact_check_html_2, penalized_total_score,
             fact_check_html_3, total_score, fact_check_html_4]"

definition lang_lit_html ::
  "string \<Rightarrow> string \<Rightarrow> string \<Rightarrow> string \<times> string \<times> string \<Rightarrow> string \<times> string \<times> string \<Rightarrow>
   string \<times> string \<times> string \<Rightarrow> string"
where
  \<comment> \<open>the format string of \<open>create_language_literature_html\<close>; a row is its score, its
      commentary and its improvements\<close>
  "lang_lit_html fact_check_block total_score overall_assessment row_a row_b row_c =
     (case (row_a, row_b, row_c) of
        ((a_score, a_commentary, a_improvements), (b_score, b_commentary, b_improvements),
         (c_score, c_commentary, c_improvements)) \<Rightarrow>
          concat [lang_lit_html_1, fact_check_block, lang_lit_html_2, total_score,
                  lang_lit_html_3, overall_assessment, lang_lit_html_4,
                  a_score, lang_lit_html_5, a_commentary, lang_lit_html_6, a_improvements,
                  lang_lit_html_7,
                  b_score, lang_lit_html_8, b_commentary, lang_lit_html_9, b_improvements,
                  lang_lit_html_10,
                  c_score, lang_lit_html_11, c_commentary, lang_lit_html_12, c_improvements,
                  lang_lit_html_13])"

definition error_html :: "string \<Rightarrow> string" where
  \<comment> \<open>the message that both \<open>except Exception\<close> handlers of the reports return\<close>
  "error_html message = concat [lang_lit_error_html_1, message, lang_lit_error_html_2]"

definition row_cells :: "'f runtime \<Rightarrow> 'f json \<Rightarrow> 'f json \<Rightarrow> exc + string \<times> string \<times> string" where
  \<comment> \<open>the three cells of a row: \<open>{row_score}\<close>, \<open>{row.get('commentary', '')}\<close> and
      \<open>{row.get('improvements', '')}\<close>\<close>
  "row_cells rt row score =
     and_then (py_get row ''commentary'' (JStr [])) (\<lambda>commentary.
     and_then (py_get row ''improvements'' (JStr [])) (\<lambda>improvements.
       Inr (py_str rt score, py_str rt commentary, py_str rt improvements)))"

definition language_literature_report :: "'f runtime \<Rightarrow> string \<Rightarrow> exc + string" where
  \<comment> \<open>the \<open>try\<close> block of \<open>create_language_literature_html\<close>\<close>
  "language_literature_report rt api_response_json =
     (case json_loads rt api_response_json of
        Inl _ \<Rightarrow> Inl JSONDecodeError
      | Inr api_response \<Rightarrow>
          and_then (py_get api_response ''rowA'' (JObj [])) (\<lambda>rowA.
          and_then (py_get api_response ''rowB'' (JObj [])) (\<lambda>rowB.
          and_then (py_get api_response ''rowC'' (JObj [])) (\<lambda>rowC.
          and_then (py_get rowA ''score'' (JInt 0)) (\<lambda>row_a_score.
          and_then (py_get rowB ''score'' (JInt 0)) (\<lambda>row_b_score.
          and_then (py_get rowC ''score'' (JInt 0)) (\<lambda>row_c_score.
          and_then (py_add rt row_a_score row_b_score) (\<lambda>a_plus_b.
          and_then (py_add rt a_plus_b row_c_score) (\<lambda>total_score.
          and_then (py_get api_response ''summary'' (JObj [])) (\<lambda>summary_content.
          and_then (case summary_content of
                      JObj d \<Rightarrow> py_get summary_content ''summary'' (JStr [])
                    | JStr s \<Rightarrow> Inr summary_content
                    | _ \<Rightarrow> Inr (JStr [])) (\<lambda>overall_assessment.
          and_then (py_get api_response ''fact_check'' JNull) (\<lambda>fact_check.
          and_then (case fact_check of
                      JNull \<Rightarrow> Inr False
                    | _ \<Rightarrow> and_then (py_get fact_check ''score'' (JInt 1))
                                     (\<lambda>score. Inr (py_eq_zero rt score))) (\<lambda>fact_check_failed.
          and_then (if fact_check_failed then
                      and_then (py_add rt row_a_score (JInt 1)) (\<lambda>a_plus_1.
                      and_then (py_add rt a_plus_1 row_c_score) (\<lambda>penalized_total_score.
                      and_then (py_get fact_check ''reasoning'' (JStr [])) (\<lambda>reasoning.
                        Inr (fact_check_html (py_str rt reasoning)
                               (py_str rt penalized_total_score) (py_str rt total_score)))))
                    else Inr []) (\<lambda>fact_check_block.
          and_then (row_cells rt rowA row_a_score) (\<lambda>row_a.
          and_then (row_cells rt rowB row_b_score) (\<lambda>row_b.
          and_then (row_cells rt rowC row_c_score) (\<lambda>row_c.
            Inr (lang_lit_html fact_check_block (py_str rt total_score)
                   (py_str rt overall_assessment) row_a row_b row_c))))))))))))))))))"

definition create_language_literature_html :: "'f runtime \<Rightarrow> string \<Rightarrow> string" where
  "create_language_literature_html rt api_response_json =
     (case language_literature_report rt api_response_json of
        Inr html \<Rightarrow> html
      | Inl e \<Rightarrow> error_html (str_exc rt e))"

definition general_html ::
  "string \<Rightarrow> string \<Rightarrow> string \<Rightarrow> string \<Rightarrow> string \<Rightarrow> string"
where
  \<comment> \<open>the format string of \<open>create_general_course_html\<close>\<close>
  "general_html total_points awarded_points score_percentage rationale feedback_html =
     concat [general_html_1, total_points, general_html_2, awarded_points, general_html_3,
             score_percentage, general_html_4, rationale, general_html_5, feedback_html,
             general_html_6]"

definition feedback_list :: "'f json \<Rightarrow> 'f json list" where
  \<comment> \<open>a list stays, a string becomes the list of itself, anything else gives no points\<close>
  "feedback_list feedback =
     (case feedback of JArr points \<Rightarrow> points | JStr s \<Rightarrow> [feedback] | _ \<Rightarrow> [])"

definition general_report :: "'f runtime \<Rightarrow> string \<Rightarrow> exc + string" where
  \<comment> \<open>the \<open>try\<close> block of \<open>create_general_course_html\<close>\<close>
  "general_report rt api_response_json =
     (case json_loads rt api_response_json of
        Inl _ \<Rightarrow> Inl JSONDecodeError
      | Inr api_response \<Rightarrow>
          and_then (py_get api_response ''total_points'' (JInt 0)) (\<lambda>total_points.
          and_then (py_get api_response ''awarded_points'' (JInt 0)) (\<lambda>awarded_points.
          and_then (py_contains api_response ''score_percentage'') (\<lambda>given.
          and_then (if given then py_get api_response ''score_percentage'' (JInt 0)
                    else
                      and_then (py_gt_zero rt total_points) (\<lambda>positive.
                        if positive then
                          (case (as_number awarded_points, as_number total_points) of
                             (Some a, Some t) \<Rightarrow>
                               and_then (percentage rt a t) (\<lambda>p. Inr (JFloat p))
                           | _ \<Rightarrow> Inl TypeError)
                        else Inr (JInt 0))) (\<lambda>score_percentage.
          and_then (py_get api_response ''rationale'' (JStr [])) (\<lambda>first_rationale.
          and_then (if py_truthy rt first_rationale then Inr first_rationale
                    else py_get api_response ''rationale_for_the_score'' (JStr [])) (\<lambda>rationale.
          and_then (py_contains api_response ''feedback'') (\<lambda>has_feedback.
          and_then (py_contains api_response ''feedback_to_the_student'') (\<lambda>has_other.
          and_then (if has_feedback then
                      and_then (py_get api_response ''feedback'' (JArr [])) (\<lambda>f. Inr (feedback_list f))
                    else if has_other then
                      and_then (py_get api_response ''feedback_to_the_student'' (JArr []))
                        (\<lambda>f. Inr (feedback_list f))
                    else Inr []) (\<lambda>feedback_points.
            (let items = concat (map (\<lambda>point. ''<li>'' @ py_str rt point @ ''</li>'') feedback_points);
                 feedback_html =
                   (if items = [] then ''<li>No specific feedback points provided.</li>'' else items)
             in Inr (general_html (py_str rt total_points) (py_str rt awarded_points)
                       (py_str rt score_percentage) (py_str rt rationale) feedback_html))))))))))))"

definition create_general_course_html :: "'f runtime \<Rightarrow> string \<Rightarrow> string" where
  "create_general_course_html rt api_response_json =
     (case general_report rt api_response_json of
        Inr html \<Rightarrow> html
      | Inl e \<Rightarrow> error_html (str_exc rt e))"

section \<open>The handler \<open>grade_frq\<close>\<close>

record grading_request =
  course_title :: string
  question :: string
  student_answer :: string
  scoring_rubric :: string
  images :: "string list"  \<comment> \<open>the content of every uploaded file\<close>

record 'f grading_response =
  scoring_response :: string
  feedback_response :: string
  html_for_app :: string
  total_possible_points :: 'f
  total_earned_points :: 'f

definition LANG_ENDPOINT :: string where
  "LANG_ENDPOINT = ''https://api-ap-lang-essay-grader.onrender.com/grade''"

definition LIT_ENDPOINT :: string where
  "LIT_ENDPOINT = ''https://api-ap-lit-essay-grader.onrender.com/grade''"

definition GENERAL_ENDPOINT :: string where
  "GENERAL_ENDPOINT = ''https://api-ap-grader.onrender.com/score''"

definition as_str :: "'f json \<Rightarrow> exc + string" where
  \<comment> \<open>a field of type \<open>str\<close> of \<open>GradingResponse\<close> takes a string only (pydantic 2)\<close>
  "as_str v = (case v of JStr s \<Rightarrow> Inr s | _ \<Rightarrow> Inl ValidationError)"

definition grade_environmental_science ::
  "'f runtime \<Rightarrow> upstream \<Rightarrow> grading_request \<Rightarrow> string \<Rightarrow> 'f event list \<Rightarrow>
   (exc + 'f grading_response) \<times> 'f event list"
where
  \<comment> \<open>the branch \<open>normalized_course == "environmental science"\<close>\<close>
  "grade_environmental_science rt up req image_data tr =
     (case call_claude_api rt up
             (create_claude_prompt (question req) (student_answer req) (scoring_rubric req)
                image_data) tr of
        (Inl e, tr1) \<Rightarrow> (Inl e, tr1)
      | (Inr scoring, tr1) \<Rightarrow>
          (case call_openai_api rt up (create_openai_prompt (py_str rt scoring)) tr1 of
             (Inl e, tr2) \<Rightarrow> (Inl e, tr2)
           | (Inr feedback, tr2) \<Rightarrow>
               (and_then (extract_score_from_env_science rt scoring feedback) (\<lambda>(earned, possible).
                and_then (create_environmental_science_html rt scoring feedback) (\<lambda>html.
                and_then (as_str scoring) (\<lambda>scoring_text.
                and_then (as_str feedback) (\<lambda>feedback_text.
                  Inr \<lparr> scoring_response = scoring_text, feedback_response = feedback_text,
                        html_for_app = html, total_possible_points = possible,
                        total_earned_points = earned \<rparr>)))),
                tr2)))"

definition essay_points :: "'f runtime \<Rightarrow> 'f json \<Rightarrow> exc + 'f" where
  \<comment> \<open>\<open>total_earned_points\<close> of the language and of the literature branch\<close>
  "essay_points rt api_response =
     and_then (py_contains api_response ''original_total_score'') (\<lambda>given.
       if given then
         and_then (py_item api_response ''original_total_score'') (py_float rt)
       else
         and_then (py_get api_response ''rowA'' (JObj [])) (\<lambda>rowA.
         and_then (py_get rowA ''score'' (JInt 0)) (\<lambda>row_a_score.
         and_then (py_get api_response ''rowB'' (JObj [])) (\<lambda>rowB.
         and_then (py_get rowB ''score'' (JInt 0)) (\<lambda>row_b_score.
         and_then (py_get api_response ''rowC'' (JObj [])) (\<lambda>rowC.
         and_then (py_get rowC ''score'' (JInt 0)) (\<lambda>row_c_score.
         and_then (py_add rt row_a_score row_b_score) (\<lambda>a_plus_b.
         and_then (py_add rt a_plus_b row_c_score) (py_float rt)))))))))"

definition grade_essay ::
  "'f runtime \<Rightarrow> upstream \<Rightarrow> string \<Rightarrow> string \<Rightarrow> grading_request \<Rightarrow> 'f event list \<Rightarrow>
   (exc + 'f grading_response) \<times> 'f event list"
where
  \<comment> \<open>the branches \<open>normalized_course == "language"\<close> and \<open>== "literature"\<close>: one text
      but for the endpoint and the name in the error message\<close>
  "grade_essay rt up endpoint api_name req tr =
     (let payload = JObj [(''full_question'', JStr (question req)),
                          (''student_essay'', JStr (student_answer req)),
                          (''reference_text'', JStr [])];
          tr1 = tr @ [Endpoint_post endpoint payload]
      in case endpoint_post up endpoint of
           Refused msg \<Rightarrow> (Inl (ConnectionError msg), tr1)
         | Reply status_code text \<Rightarrow>
             (if status_code \<noteq> 200 then
                (Inl (HTTPException 500 (''Error from '' @ api_name @ '' API: '' @ text)), tr1)
              else
                (case json_loads rt text of
                   Inl _ \<Rightarrow> (Inl JSONDecodeError, tr1)
                 | Inr api_response \<Rightarrow>
                     (and_then (essay_points rt api_response) (\<lambda>earned.
                        Inr \<lparr> scoring_response = json_dumps rt api_response,
                              feedback_response = [],
                              html_for_app =
                                create_language_literature_html rt (json_dumps rt api_response),
                              total_possible_points = float_of_literal rt ''6.0'',
                              total_earned_points = earned \<rparr>),
                      tr1))))"

definition grade_general ::
  "'f runtime \<Rightarrow> upstream \<Rightarrow> grading_request \<Rightarrow> 'f event list \<Rightarrow>
   (exc + 'f grading_response) \<times> 'f event list"
where
  \<comment> \<open>the last branch: every other course\<close>
  "grade_general rt up req tr =
     (let data = JObj [(''question'', JStr (question req)),
                       (''student_answer'', JStr (student_answer req)),
                       (''scoring_rubric'', JStr (scoring_rubric req))];
          tr1 = tr @ [Endpoint_post GENERAL_ENDPOINT data]
      in case endpoint_post up GENERAL_ENDPOINT of
           Refused msg \<Rightarrow> (Inl (ConnectionError msg), tr1)
         | Reply status_code text \<Rightarrow>
             (if status_code \<noteq> 200 then
                (Inl (HTTPException 500 (''Error from AP grader API: '' @ text)), tr1)
              else
                (case json_loads rt text of
                   Inl _ \<Rightarrow> (Inl JSONDecodeError, tr1)
                 | Inr api_response \<Rightarrow>
                     (and_then (py_get api_response ''total_points'' (JInt 0)) (\<lambda>total.
                      and_then (py_float rt total) (\<lambda>possible.
                      and_then (py_get api_response ''awarded_points'' (JInt 0)) (\<lambda>awarded.
                      and_then (py_float rt awarded) (\<lambda>earned.
                        Inr \<lparr> scoring_response = json_dumps rt api_response,
                              feedback_response = [],
                              html_for_app =
                                create_general_course_html rt (json_dumps rt api_response),
                              total_possible_points = possible,
                              total_earned_points = earned \<rparr>)))),
                      tr1))))"

definition encode_images :: "'f runtime \<Rightarrow> string list \<Rightarrow> string" where
  \<comment> \<open>\<open>image_data\<close>: the uploaded files in base 64, one a line, or the empty text\<close>
  "encode_images rt files =
     (if files = [] then [] else join [CHR 0x0A] (map (b64encode rt) files))"

definition grade_frq_body ::
  "'f runtime \<Rightarrow> upstream \<Rightarrow> grading_request \<Rightarrow> 'f event list \<Rightarrow>
   (exc + 'f grading_response) \<times> 'f event list"
where
  \<comment> \<open>the \<open>try\<close> block of \<open>grade_frq\<close>; a method of \<open>str\<close> on a classification that is
      not a string raises \<open>AttributeError\<close>\<close>
  "grade_frq_body rt up req tr =
     (case classify_frq_course rt up (course_title req) (question req) tr of
        (Inl e, tr1) \<Rightarrow> (Inl e, tr1)
      | (Inr classified_course, tr1) \<Rightarrow>
          (case classified_course of
             JStr course \<Rightarrow>
               (case select_strategy (normalize_course_name course) of
                  Two_stage \<Rightarrow>
                    grade_environmental_science rt up req (encode_images rt (images req)) tr1
                | Language \<Rightarrow> grade_essay rt up LANG_ENDPOINT ''AP Language'' req tr1
                | Literature \<Rightarrow> grade_essay rt up LIT_ENDPOINT ''AP Literature'' req tr1
                | General \<Rightarrow> grade_general rt up req tr1)
           | _ \<Rightarrow> (Inl AttributeError, tr1)))"

definition grade_frq ::
  "'f runtime \<Rightarrow> upstream \<Rightarrow> grading_request \<Rightarrow> 'f event list \<Rightarrow>
   (exc + 'f grading_response) \<times> 'f event list"
where
  \<comment> \<open>\<open>except HTTPException: raise\<close>, and every other exception becomes the status 500\<close>
  "grade_frq rt up req tr =
     (case grade_frq_body rt up req tr of
        (Inl (HTTPException status_code detail), tr') \<Rightarrow> (Inl (HTTPException status_code detail), tr')
      | (Inl e, tr') \<Rightarrow>
          (Inl (HTTPException 500 (''Internal server error: '' @ str_exc rt e)), tr')
      | (Inr response, tr') \<Rightarrow> (Inr response, tr'))"

definition required_form_field :: "(string \<Rightarrow> string option) \<Rightarrow> string \<Rightarrow> exc + string" where
  \<comment> \<open>a parameter declared \<open>str = Form(...)\<close>: FastAPI reads it from the form before it
      calls the handler, and answers a form that lacks the field, or gives it an empty
      value, with a validation error\<close>
  "required_form_field form name =
     (case form name of
        None \<Rightarrow> Inl RequestValidationError
      | Some v \<Rightarrow> if v = [] then Inl RequestValidationError else Inr v)"

definition post_grade ::
  "'f runtime \<Rightarrow> upstream \<Rightarrow> (string \<Rightarrow> string option) \<Rightarrow> string list \<Rightarrow> 'f event list \<Rightarrow>
   (exc + 'f grading_response) \<times> 'f event list"
where
  \<comment> \<open>a POST to \<open>/grade/\<close>: the four required fields of the signature of \<open>grade_frq\<close>
      are bound, then the handler runs\<close>
  "post_grade rt up form files tr =
     (case and_then (required_form_field form ''course_title'') (\<lambda>course_title.
           and_then (required_form_field form ''question'') (\<lambda>question.
           and_then (required_form_field form ''student_answer'') (\<lambda>student_answer.
           and_then (required_form_field form ''scoring_rubric'') (\<lambda>scoring_rubric.
             Inr \<lparr> course_title = course_title, question = question,
                   student_answer = student_answer, scoring_rubric = scoring_rubric,
                   images = files \<rparr>)))) of
        Inl e \<Rightarrow> (Inl e, tr)
      | Inr req \<Rightarrow> grade_frq rt up req tr)"

section \<open>The handler \<open>score_answer\<close> of \<open>ap-frq-grader.py\<close>\<close>

record scoring_request =
  sr_question :: string
  sr_student_answer :: string
  sr_scoring_rubric :: string

definition grader_call_openai_api ::
  "'f runtime \<Rightarrow> upstream \<Rightarrow> string \<Rightarrow> 'f event list \<Rightarrow> (exc + 'f json) \<times> 'f event list"
where
  \<comment> \<open>\<open>call_openai_api\<close> of \<open>ap-frq-grader.py\<close>. The module does not import \<open>time\<close>:
      the handler of the first failure raises \<open>NameError\<close> at \<open>time.sleep(4)\<close>, which
      ends the loop\<close>
  "grader_call_openai_api rt up prompt tr =
     (case openai_create up (length (filter is_openai_create tr)) of
        Failed msg \<Rightarrow> (Inl NameError, tr @ [Openai_create prompt])
      | Choices [] \<Rightarrow> (Inl NameError, tr @ [Openai_create prompt])
      | Choices (None # _) \<Rightarrow> (Inr JNull, tr @ [Openai_create prompt])
      | Choices (Some content # _) \<Rightarrow> (Inr (JStr content), tr @ [Openai_create prompt]))"

definition score_answer_body ::
  "'f runtime \<Rightarrow> upstream \<Rightarrow> ((string \<times> 'f json) list \<Rightarrow> bool) \<Rightarrow> scoring_request \<Rightarrow>
   'f event list \<Rightarrow> (exc + (string \<times> 'f json) list) \<times> 'f event list"
where
  \<comment> \<open>the \<open>try\<close> block of \<open>score_answer\<close>. \<open>valid\<close> is the validation of
      \<open>ScoringResponse(**scoring_data)\<close> by pydantic; the result stands for the validated
      object.\<close>
  "score_answer_body rt up valid request tr =
     (if sr_question request = [] \<or> sr_student_answer request = [] \<or> sr_scoring_rubric request = []
      then
        (Inl (HTTPException 400
                ''All fields (question, student_answer, scoring_rubric) are required''), tr)
      else
        (let dump = json_dumps rt (JObj [(''question'', JStr (sr_question request)),
                                        (''student_answer'', JStr (sr_student_answer request)),
                                        (''scoring_rubric'', JStr (sr_scoring_rubric request))]);
             tr1 = tr @ [Calculations_check dump]
         in case calculations_check up dump of
              Inl e \<Rightarrow> (Inl e, tr1)
            | Inr (requires_calculation, reasoning) \<Rightarrow>
                (let rubric = (if requires_calculation
                               then sr_scoring_rubric request @ [CHR 0x0A] @ ''Note: '' @ reasoning
                               else sr_scoring_rubric request)
                 in case grader_call_openai_api rt up
                           (create_scoring_prompt (sr_question request)
                              (sr_student_answer request) rubric) tr1 of
                      (Inl e, tr2) \<Rightarrow> (Inl e, tr2)
                    | (Inr response, tr2) \<Rightarrow>
                        (if \<not> py_truthy rt response then
                           (Inl (HTTPException 500 ''Failed to get response from Claude API''), tr2)
                         else
                           (case response of
                              JStr text \<Rightarrow>
                                (case json_loads rt text of
                                   Inl _ \<Rightarrow>
                                     (Inl (HTTPException 500
                                             (''Invalid JSON response from Claude: ''
                                              @ str_exc rt JSONDecodeError)), tr2)
                                 | Inr (JObj scoring_data) \<Rightarrow>
                                     (if valid scoring_data then (Inr scoring_data, tr2)
                                      else (Inl ValidationError, tr2))
                                 | Inr _ \<Rightarrow> (Inl TypeError, tr2))
                            | _ \<Rightarrow> (Inl TypeError, tr2))))))"

definition score_answer ::
  "'f runtime \<Rightarrow> upstream \<Rightarrow> ((string \<times> 'f json) list \<Rightarrow> bool) \<Rightarrow> scoring_request \<Rightarrow>
   'f event list \<Rightarrow> (exc + (string \<times> 'f json) list) \<times> 'f event list"
where
  "score_answer rt up valid request tr =
     (case score_answer_body rt up valid request tr of
        (Inl (HTTPException status_code detail), tr') \<Rightarrow> (Inl (HTTPException status_code detail), tr')
      | (Inl e, tr') \<Rightarrow>
          (Inl (HTTPException 500 (''Internal server error: '' @ str_exc rt e)), tr')
      | (Inr response, tr') \<Rightarrow> (Inr response, tr'))"

section \<open>The outcome of one attempt\<close>

definition claude_outcome :: "'f runtime \<Rightarrow> http_reply \<Rightarrow> exc + 'f json" where
  \<comment> \<open>what one attempt of \<open>call_claude_api\<close> comes to, whichever round it is made in:
      the text to return, or the exception that its \<open>except\<close> clause sees or, in the rounds
      that pause at once, would see\<close>
  "claude_outcome rt reply =
     (case reply of
        Refused msg \<Rightarrow> Inl (ConnectionError msg)
      | Reply status_code text \<Rightarrow>
          (if status_code = 200 then claude_text rt text
           else Inl (HTTPException status_code (''Claude API call failed: '' @ text))))"

definition openai_outcome :: "completion \<Rightarrow> exc + 'f json" where
  \<comment> \<open>what one attempt of \<open>call_openai_api\<close> comes to\<close>
  "openai_outcome outcome =
     (case outcome of
        Failed msg \<Rightarrow> Inl (APIError msg)
      | Choices [] \<Rightarrow> Inl IndexError
      | Choices (None # _) \<Rightarrow> Inr JNull
      | Choices (Some content # _) \<Rightarrow> Inr (JStr content))"

definition attempts :: "'f event \<Rightarrow> 'f event list list" where
  \<comment> \<open>the traces of one call through a retrying wrapper: one, two or three attempts,
      with a pause of 4 seconds between two of them\<close>
  "attempts call = [[call], [call, Sleep 4, call], [call, Sleep 4, call, Sleep 4, call]]"

section \<open>Readings of the specification that the code is compared with\<close>

fun text_before :: "string \<Rightarrow> string \<Rightarrow> string option" where
  \<comment> \<open>the text in front of the first place where \<open>stop\<close> stands, if there is one\<close>
  "text_before stop [] = (if stop = [] then Some [] else None)"
| "text_before stop (c # cs) =
     (if startswith (c # cs) stop then Some []
      else map_option ((#) c) (text_before stop cs))"

definition score_estimate_block :: "string \<Rightarrow> string option" where
  \<comment> \<open>Follows the words of the specification, "inside a tagged score_estimate block":
      the text between the first opening tag and the closing tag that follows it\<close>
  "score_estimate_block scoring =
     (case search (\<lambda>t. if startswith t ''<score_estimate>'' then Some (drop 16 t) else None) scoring of
        None \<Rightarrow> None
      | Some after_tag \<Rightarrow> text_before ''</score_estimate>'' after_tag)"

section \<open>A runtime and services to run the definitions on\<close>

fun sample_escape :: "string \<Rightarrow> string" where
  "sample_escape [] = []"
| "sample_escape (c # cs) =
     (if c = CHR 0x22 then [CHR 0x5C, CHR 0x22]
      else if c = CHR 0x5C then [CHR 0x5C, CHR 0x5C]
      else if c = CHR 0x0A then [CHR 0x5C, CHR ''n'']
      else [c]) @ sample_escape cs"

fun sample_dumps :: "string json \<Rightarrow> string" where
  "sample_dumps JNull = ''null''"
| "sample_dumps (JBool b) = (if b then ''true'' else ''false'')"
| "sample_dumps (JInt n) = str_of_int n"
| "sample_dumps (JFloat x) = x"
| "sample_dumps (JStr s) = [CHR 0x22] @ sample_escape s @ [CHR 0x22]"
| "sample_dumps (JArr xs) = ''['' @ join '', '' (map sample_dumps xs) @ '']''"
| "sample_dumps (JObj d) =
     ''{'' @ join '', '' (map (\<lambda>kv. [CHR 0x22] @ sample_escape (fst kv) @ [CHR 0x22] @ '': ''
                                      @ sample_dumps (snd kv)) d) @ ''}''"

definition sample_runtime :: "string runtime" where
  \<comment> \<open>a runtime for the examples: a \<open>float\<close> is kept as the text that denotes it, and
      \<open>json.dumps\<close> is right on text without control characters in ASCII\<close>
  "sample_runtime =
     \<lparr> float_of_literal = (\<lambda>s. s),
       float_of_int = (\<lambda>n. Some (str_of_int n @ ''.0'')),
       float_of_str = (\<lambda>s. Some s),
       float_add = (\<lambda>x y. x @ '' + '' @ y),
       float_is_zero = (\<lambda>x. x = ''0.0''),
       float_is_positive = (\<lambda>x. \<not> (x = ''0.0'' \<or> startswith x ''-'')),
       percentage = (\<lambda>a t. Inr ''0.0''),
       repr_float = (\<lambda>x. x),
       repr_str = (\<lambda>s. [CHR 0x27] @ s @ [CHR 0x27]),
       builtin_message = (\<lambda>e. ''error''),
       json_dumps = sample_dumps,
       b64encode = (\<lambda>s. s) \<rparr>"

definition claude_body :: "string \<Rightarrow> string" where
  \<comment> \<open>the body of a response of the Claude API that carries this text\<close>
  "claude_body text =
     ''{\"content\": [{\"type\": \"text\", \"text\": \"'' @ sample_escape text @ ''\"}]}''"

definition scripted :: "http_reply list \<Rightarrow> completion list \<Rightarrow> (string \<times> http_reply) list \<Rightarrow> upstream" where
  \<comment> \<open>services that answer from a script, and refuse what the script does not cover\<close>
  "scripted claude openai endpoints =
     \<lparr> claude_post = (\<lambda>n. case drop n claude of r # _ \<Rightarrow> r | [] \<Rightarrow> Refused ''connection refused''),
       openai_create = (\<lambda>n. case drop n openai of r # _ \<Rightarrow> r | [] \<Rightarrow> Failed ''connection refused''),
       endpoint_post = (\<lambda>url. case map_of endpoints url of
                                 Some r \<Rightarrow> r
                               | None \<Rightarrow> Refused ''connection refused''),
       calculations_check = (\<lambda>dump. Inr (False, [])) \<rparr>"


section \<open>Evaluation on concrete text\<close>

lemmas json_eval = json_loads_def startswith_def skip_ws_def is_json_ws_def scan_string.simps
  is_control_def simple_escape_def match_number_def is_digit_def dict_of_pairs_def Let_def
  int_of_digits_def hex_val_def

lemmas py_eval = py_get_def py_item_def py_contains_def dict_get_def and_then_def

section \<open>The retrying wrappers\<close>

lemma claude_round_outcome:
  "claude_round rt reply attempt =
     (case claude_outcome rt reply of
        Inr v \<Rightarrow> Return v
      | Inl e \<Rightarrow> if attempt < 2 then Continue
                 else Raise (HTTPException 500 (''Error calling Claude API: '' @ str_exc rt e)))"
  by (auto simp: claude_round_def claude_try_def claude_outcome_def split: http_reply.splits sum.splits)

lemma openai_round_outcome:
  "openai_round rt outcome attempt =
     (case openai_outcome outcome of
        Inr v \<Rightarrow> Return v
      | Inl e \<Rightarrow> if attempt < 2 then Continue
                 else Raise (HTTPException 500 (''Error calling OpenAI API: '' @ str_exc rt e)))"
  by (auto simp: openai_round_def openai_outcome_def split: completion.splits list.splits option.splits)

lemma call_claude_api_cases:
  "call_claude_api rt up prompt tr =
     (let k = length (filter is_claude_post tr); post = Claude_post prompt in
      case claude_outcome rt (claude_post up k) of
        Inr v \<Rightarrow> (Inr v, tr @ [post])
      | Inl e0 \<Rightarrow>
          (case claude_outcome rt (claude_post up (k + 1)) of
             Inr v \<Rightarrow> (Inr v, tr @ [post, Sleep 4, post])
           | Inl e1 \<Rightarrow>
               (case claude_outcome rt (claude_post up (k + 2)) of
                  Inr v \<Rightarrow> (Inr v, tr @ [post, Sleep 4, post, Sleep 4, post])
                | Inl e2 \<Rightarrow>
                    (Inl (HTTPException 500 (''Error calling Claude API: '' @ str_exc rt e2)),
                     tr @ [post, Sleep 4, post, Sleep 4, post]))))"
  by (simp add: call_claude_api_def claude_round_outcome Let_def split: sum.splits)

lemma call_openai_api_cases:
  "call_openai_api rt up prompt tr =
     (let k = length (filter is_openai_create tr); post = Openai_create prompt in
      case openai_outcome (openai_create up k) of
        Inr v \<Rightarrow> (Inr v, tr @ [post])
      | Inl e0 \<Rightarrow>
          (case openai_outcome (openai_create up (k + 1)) of
             Inr v \<Rightarrow> (Inr v, tr @ [post, Sleep 4, post])
           | Inl e1 \<Rightarrow>
               (case openai_outcome (openai_create up (k + 2)) of
                  Inr v \<Rightarrow> (Inr v, tr @ [post, Sleep 4, post, Sleep 4, post])
                | Inl e2 \<Rightarrow>
                    (Inl (HTTPException 500 (''Error calling OpenAI API: '' @ str_exc rt e2)),
                     tr @ [post, Sleep 4, post, Sleep 4, post]))))"
  by (simp add: call_openai_api_def openai_round_outcome Let_def split: sum.splits)



section \<open>Text\<close>

lemma startswith_append [simp]: "startswith (p @ rest) p"
  by (simp add: startswith_def)



section \<open>The traces of the handler\<close>


lemma grade_frq_Inr:
  "grade_frq rt up req tr = (Inr r, tr') \<Longrightarrow> grade_frq_body rt up req tr = (Inr r, tr')"
  by (auto simp: grade_frq_def split: prod.splits sum.splits exc.splits)






section \<open>The dispatch (claim C2)\<close>




section \<open>The two stages of the environmental-science strategy (claim C7)\<close>



section \<open>The retrying wrappers (claim C6)\<close>

text \<open>
  Claim C6, as stated, counts as a failure a transport exception or a response that
  is not 2xx. \<open>call_claude_api\<close> goes on after every response whose status is not 200:
  a response 204 is followed by a pause and a second attempt.
\<close>

theorem retry_on_2xx_counterexample:
  "call_claude_api sample_runtime
     (scripted [Reply 204 [], Reply 200 (claude_body ''ok'')] [] []) ''prompt'' [] =
   (Inr (JStr ''ok''), [Claude_post ''prompt'', Sleep 4, Claude_post ''prompt''])"
  by (simp add: call_claude_api_cases claude_outcome_def scripted_def claude_text_def claude_body_def
      json_eval py_eval)

text \<open>
  Claim C6, amended. An attempt of \<open>call_claude_api\<close> fails when the POST raises,
  when the status of the response is not 200, or when the body of a response 200
  cannot be read; an attempt of \<open>call_openai_api\<close> fails when the client raises or
  gives no choice. A call returns the result of its first attempt that does not fail,
  among at most three, and makes no attempt after it; a pause of 4 seconds stands
  between two attempts, so a call whose third attempt is the first one that does not
  fail returns after exactly two pauses. A call whose three attempts fail raises an
  \<open>HTTPException\<close> of status 500 after the third attempt and makes no fourth: its
  detail ends with the text of the last failure, which for a response of another
  status is that status and the body of the response, and for an exception its
  message.
\<close>

theorem retrying_wrappers:
  "call_claude_api rt up prompt tr =
     (let k = length (filter is_claude_post tr); post = Claude_post prompt in
      case claude_outcome rt (claude_post up k) of
        Inr v \<Rightarrow> (Inr v, tr @ [post])
      | Inl e0 \<Rightarrow>
          (case claude_outcome rt (claude_post up (k + 1)) of
             Inr v \<Rightarrow> (Inr v, tr @ [post, Sleep 4, post])
           | Inl e1 \<Rightarrow>
               (case claude_outcome rt (claude_post up (k + 2)) of
                  Inr v \<Rightarrow> (Inr v, tr @ [post, Sleep 4, post, Sleep 4, post])
                | Inl e2 \<Rightarrow>
                    (Inl (HTTPException 500 (''Error calling Claude API: '' @ str_exc rt e2)),
                     tr @ [post, Sleep 4, post, Sleep 4, post])))) \<and>
   call_openai_api rt up prompt tr =
     (let k = length (filter is_openai_create tr); post = Openai_create prompt in
      case openai_outcome (openai_create up k) of
        Inr v \<Rightarrow> (Inr v, tr @ [post])
      | Inl e0 \<Rightarrow>
          (case openai_outcome (openai_create up (k + 1)) of
             Inr v \<Rightarrow> (Inr v, tr @ [post, Sleep 4, post])
           | Inl e1 \<Rightarrow>
               (case openai_outcome (openai_create up (k + 2)) of
                  Inr v \<Rightarrow> (Inr v, tr @ [post, Sleep 4, post, Sleep 4, post])
                | Inl e2 \<Rightarrow>
                    (Inl (HTTPException 500 (''Error calling OpenAI API: '' @ str_exc rt e2)),
                     tr @ [post, Sleep 4, post, Sleep 4, post])))) \<and>
   claude_outcome rt (Refused msg) = Inl (ConnectionError msg) \<and>
   str_exc rt (ConnectionError msg) = msg \<and>
   (status_code \<noteq> 200 \<longrightarrow>
      claude_outcome rt (Reply status_code body) =
        Inl (HTTPException status_code (''Claude API call failed: '' @ body)) \<and>
      str_exc rt (HTTPException status_code (''Claude API call failed: '' @ body)) =
        str_of_nat status_code @ '': Claude API call failed: '' @ body) \<and>
   claude_outcome rt (Reply 200 body) = claude_text rt body \<and>
   (openai_outcome (Failed msg) :: exc + 'f json) = Inl (APIError msg) \<and>
   str_exc rt (APIError msg) = msg \<and>
   (openai_outcome (Choices (Some content # others)) :: exc + 'f json) = Inr (JStr content)"
  by (simp add: call_claude_api_cases call_openai_api_cases claude_outcome_def openai_outcome_def
      str_exc_def)

theorem retrying_wrappers_witness:
  "call_claude_api sample_runtime
     (scripted [Refused ''timed out'', Reply 503 ''busy'', Reply 200 (claude_body ''ok'')] [] [])
     ''prompt'' [] =
   (Inr (JStr ''ok''),
    [Claude_post ''prompt'', Sleep 4, Claude_post ''prompt'', Sleep 4, Claude_post ''prompt'']) \<and>
   call_claude_api sample_runtime
     (scripted [Reply 503 ''busy'', Reply 503 ''busy'', Reply 503 ''busy'',
                Reply 200 (claude_body ''ok'')] [] [])
     ''prompt'' [] =
   (Inl (HTTPException 500 ''Error calling Claude API: 503: Claude API call failed: busy''),
    [Claude_post ''prompt'', Sleep 4, Claude_post ''prompt'', Sleep 4, Claude_post ''prompt'']) \<and>
   call_openai_api sample_runtime
     (scripted [] [Failed ''reset'', Failed ''reset'', Failed ''rate limit'', Choices [Some ''late'']] [])
     ''prompt'' [] =
   (Inl (HTTPException 500 ''Error calling OpenAI API: rate limit''),
    [Openai_create ''prompt'', Sleep 4, Openai_create ''prompt'', Sleep 4, Openai_create ''prompt'']) \<and>
   claude_outcome sample_runtime (Reply 503 ''busy'') =
     Inl (HTTPException 503 ''Claude API call failed: busy'') \<and>
   str_exc sample_runtime (HTTPException 503 ''Claude API call failed: busy'') =
     ''503: Claude API call failed: busy''"
proof -
  have a: "call_claude_api sample_runtime
     (scripted [Refused ''timed out'', Reply 503 ''busy'', Reply 200 (claude_body ''ok'')] [] [])
     ''prompt'' [] =
   (Inr (JStr ''ok''),
    [Claude_post ''prompt'', Sleep 4, Claude_post ''prompt'', Sleep 4, Claude_post ''prompt''])"
    using retrying_wrappers[where rt = sample_runtime and prompt = "''prompt''" and tr = "[]"
        and up = "scripted [Refused ''timed out'', Reply 503 ''busy'', Reply 200 (claude_body ''ok'')] [] []"
        and status_code = 503 and body = "''busy''", THEN conjunct1]
    by (simp add: claude_outcome_def scripted_def claude_text_def claude_body_def json_eval py_eval)
  have b: "call_claude_api sample_runtime
     (scripted [Reply 503 ''busy'', Reply 503 ''busy'', Reply 503 ''busy'',
                Reply 200 (claude_body ''ok'')] [] [])
     ''prompt'' [] =
   (Inl (HTTPException 500 ''Error calling Claude API: 503: Claude API call failed: busy''),
    [Claude_post ''prompt'', Sleep 4, Claude_post ''prompt'', Sleep 4, Claude_post ''prompt''])"
    using retrying_wrappers[where rt = sample_runtime and prompt = "''prompt''" and tr = "[]"
        and up = "scripted [Reply 503 ''busy'', Reply 503 ''busy'', Reply 503 ''busy'',
                Reply 200 (claude_body ''ok'')] [] []"
        and status_code = 503 and body = "''busy''", THEN conjunct1]
    by (simp add: claude_outcome_def scripted_def str_exc_def digit_char_def Let_def)
  have c: "call_openai_api sample_runtime
     (scripted [] [Failed ''reset'', Failed ''reset'', Failed ''rate limit'', Choices [Some ''late'']] [])
     ''prompt'' [] =
   (Inl (HTTPException 500 ''Error calling OpenAI API: rate limit''),
    [Openai_create ''prompt'', Sleep 4, Openai_create ''prompt'', Sleep 4, Openai_create ''prompt''])"
    using retrying_wrappers[where rt = sample_runtime and prompt = "''prompt''" and tr = "[]"
        and up = "scripted [] [Failed ''reset'', Failed ''reset'', Failed ''rate limit'', Choices [Some ''late'']] []"
        and msg = "''rate limit''", THEN conjunct2, THEN conjunct1]
    by (simp add: openai_outcome_def scripted_def str_exc_def Let_def)
  have d: "claude_outcome sample_runtime (Reply 503 ''busy'') =
       Inl (HTTPException 503 ''Claude API call failed: busy'') \<and>
     str_exc sample_runtime (HTTPException 503 ''Claude API call failed: busy'') =
       ''503: Claude API call failed: busy''"
    using retrying_wrappers[where rt = sample_runtime and status_code = 503 and body = "''busy''",
        THEN conjunct2, THEN conjunct2, THEN conjunct2, THEN conjunct2, THEN conjunct1]
    by (simp add: digit_char_def)
  from a b c d show ?thesis by simp
qed

section \<open>Validation of the request (claim C8)\<close>

text \<open>
  Claim C8. A request in which a required field is empty or missing is rejected before
  any call of a service: the trace is left as it was. \<open>score_answer\<close> answers a request
  with an empty \<open>question\<close>, \<open>student_answer\<close> or \<open>scoring_rubric\<close> with status 400;
  a form posted to \<open>/grade/\<close> that lacks \<open>course_title\<close>, \<open>question\<close>,
  \<open>student_answer\<close> or \<open>scoring_rubric\<close>, or gives it an empty value, is refused with a
  validation error before \<open>grade_frq\<close> runs.
\<close>

theorem validation_before_upstream:
  "((sr_question request = [] \<or> sr_student_answer request = [] \<or> sr_scoring_rubric request = []) \<longrightarrow>
      score_answer rt up valid request tr =
        (Inl (HTTPException 400
                ''All fields (question, student_answer, scoring_rubric) are required''), tr)) \<and>
   ((name = ''course_title'' \<or> name = ''question'' \<or> name = ''student_answer'' \<or>
     name = ''scoring_rubric'') \<and> (form name = None \<or> form name = Some []) \<longrightarrow>
      post_grade rt up form files tr = (Inl RequestValidationError, tr))"
  by (auto simp: score_answer_def score_answer_body_def post_grade_def required_form_field_def
      and_then_def split: option.splits)

theorem validation_before_upstream_witness:
  "score_answer sample_runtime (scripted [] [Choices [Some ''{}'']] [])  (\<lambda>d. True)
     \<lparr> sr_question = ''Q'', sr_student_answer = [], sr_scoring_rubric = ''R'' \<rparr> [] =
     (Inl (HTTPException 400
             ''All fields (question, student_answer, scoring_rubric) are required''), []) \<and>
   post_grade sample_runtime (scripted [Reply 200 (claude_body ''AP Biology'')] [] [])
     (map_of [(''course_title'', ''Biology''), (''question'', []), (''student_answer'', ''A''),
              (''scoring_rubric'', ''R'')]) [] [] = (Inl RequestValidationError, []) \<and>
   post_grade sample_runtime (scripted [Reply 200 (claude_body ''AP Biology'')] [] [])
     (map_of [(''course_title'', ''Biology''), (''question'', ''Q''), (''student_answer'', ''A'')])
     [] [] = (Inl RequestValidationError, [])"
  using validation_before_upstream[where rt = sample_runtime and tr = "[]" and valid = "\<lambda>d. True"
      and request = "\<lparr> sr_question = ''Q'', sr_student_answer = [], sr_scoring_rubric = ''R'' \<rparr>"
      and name = "''question''" and files = "[]"
      and form = "map_of [(''course_title'', ''Biology''), (''question'', []), (''student_answer'', ''A''),
              (''scoring_rubric'', ''R'')]"]
    validation_before_upstream[where rt = sample_runtime and tr = "[]"
      and name = "''scoring_rubric''" and files = "[]"
      and form = "map_of [(''course_title'', ''Biology''), (''question'', ''Q''), (''student_answer'', ''A'')]"]
  by simp

end
